theory Spec2Isabelle
  imports Main
begin

section \<open>JavaScript values shared by the three modules\<close>

text \<open>
  A value that a \<^verbatim>\<open>throw\<close> hands to the caller (for an async function: the value the
  returned promise is rejected with). The sources only throw \<^verbatim>\<open>new Error(message)\<close>;
  reading a property of \<^verbatim>\<open>undefined\<close> makes the engine throw a \<^verbatim>\<open>TypeError\<close>.
  A fallible computation returns \<open>thrown + 'a\<close>, \<open>Inl\<close> being the throw.
\<close>

datatype thrown = Error string | TypeError string

text \<open>
  Truthiness of the two kinds of optional values the sources test with \<^verbatim>\<open>!x\<close> or
  \<^verbatim>\<open>x ? _ : _\<close>: \<^verbatim>\<open>string | undefined\<close> (the empty string is falsy) and
  \<^verbatim>\<open>number | undefined\<close> (zero is falsy). Chain ids are non-negative numbers.
\<close>

definition truthy_string :: "string option \<Rightarrow> bool" where
  "truthy_string s = (case s of None \<Rightarrow> False | Some v \<Rightarrow> v \<noteq> [])"

definition truthy_number :: "nat option \<Rightarrow> bool" where
  "truthy_number n = (case n of None \<Rightarrow> False | Some v \<Rightarrow> v \<noteq> 0)"

text \<open>Decimal rendering, as \<^verbatim>\<open>${n}\<close> and \<^verbatim>\<open>toString()\<close> produce it for integers.\<close>

definition digit_char :: "nat \<Rightarrow> char" where
  "digit_char d =
     (if d = 0 then CHR ''0'' else if d = 1 then CHR ''1'' else if d = 2 then CHR ''2''
      else if d = 3 then CHR ''3'' else if d = 4 then CHR ''4'' else if d = 5 then CHR ''5''
      else if d = 6 then CHR ''6'' else if d = 7 then CHR ''7'' else if d = 8 then CHR ''8''
      else CHR ''9'')"

fun toString_nat :: "nat \<Rightarrow> string" where
  "toString_nat n =
     (if n < 10 then [digit_char n] else toString_nat (n div 10) @ [digit_char (n mod 10)])"

declare toString_nat.simps [simp del]

definition toString_int :: "int \<Rightarrow> string" where
  "toString_int i = (if i < 0 then CHR ''-'' # toString_nat (nat (- i)) else toString_nat (nat i))"

section \<open>wagmiConfig: RPC endpoint order and the response handler\<close>

text \<open>
  The part of a chain record the sources read: \<^verbatim>\<open>chain.id\<close>, \<^verbatim>\<open>chain.name\<close>,
  \<^verbatim>\<open>chain.contracts?.ensRegistry?.address\<close> and the four endpoint categories
  \<^verbatim>\<open>chain.rpcUrls.{interface,default,public,fallback}?.http\<close>.
\<close>

record RpcEntry =
  http :: "string list"

record RpcUrls =
  interface :: "RpcEntry option"
  default :: "RpcEntry option"
  public :: "RpcEntry option"
  fallback :: "RpcEntry option"

record ChainContract =
  contract_address :: string

record ChainContracts =
  ensRegistry :: "ChainContract option"

record Chain =
  chain_id :: nat
  chain_name :: string
  contracts :: "ChainContracts option"
  rpcUrls :: RpcUrls

text \<open>\<^verbatim>\<open>entry?.http ?? []\<close>\<close>

definition http_or_empty :: "RpcEntry option \<Rightarrow> string list" where
  "http_or_empty e = (case e of None \<Rightarrow> [] | Some r \<Rightarrow> http r)"

text \<open>
  A JavaScript \<^verbatim>\<open>Set\<close> iterates in insertion order, and \<^verbatim>\<open>add\<close> of a member that is
  already present changes nothing. The set is modelled by the list of its members in
  insertion order; \<^verbatim>\<open>new Set(xs)\<close> adds the elements of \<^verbatim>\<open>xs\<close> from left to right and
  \<^verbatim>\<open>Array.from\<close> reads the members back in that order.
\<close>

definition Set_add :: "string list \<Rightarrow> string \<Rightarrow> string list" where
  "Set_add s x = (if x \<in> set s then s else s @ [x])"

definition new_Set :: "string list \<Rightarrow> string list" where
  "new_Set xs = foldl Set_add [] xs"

definition Array_from :: "string list \<Rightarrow> string list" where
  "Array_from s = s"

definition orderedTransportUrls :: "Chain \<Rightarrow> string list" where
  "orderedTransportUrls chain =
     (let orderedRpcUrls =
            http_or_empty (interface (rpcUrls chain)) @
            http_or_empty (default (rpcUrls chain)) @
            http_or_empty (public (rpcUrls chain)) @
            http_or_empty (fallback (rpcUrls chain))
      in Array_from (new_Set (filter (\<lambda>u. u \<noteq> []) orderedRpcUrls)))"

text \<open>
  The words of the specification for the same function: duplicates removed, the first
  occurrence of every URL kept in its place.
\<close>

fun first_seen :: "string list \<Rightarrow> string list" where
  "first_seen [] = []"
| "first_seen (x # xs) = x # first_seen (filter (\<lambda>y. y \<noteq> x) xs)"

definition spec_endpoint_order :: "Chain \<Rightarrow> string list" where
  "spec_endpoint_order chain =
     first_seen (filter (\<lambda>u. u \<noteq> [])
       (concat (map http_or_empty
          [interface (rpcUrls chain), default (rpcUrls chain),
           public (rpcUrls chain), fallback (rpcUrls chain)])))"

text \<open>
  The logger is an effect: the model threads the list of calls made to it.
  \<^verbatim>\<open>logger.warn(fileName, functionName, message, {extra})\<close> and
  \<^verbatim>\<open>logger.error(error, {extra, tags})\<close> are the two calls of the source.
\<close>

record Response =
  resp_status :: nat

record LogExtra =
  extra_chainId :: nat
  extra_url :: string

record LogTags =
  tag_file :: string
  tag_function :: string

datatype log_call =
    LoggerWarn string string string LogExtra
  | LoggerError thrown LogExtra LogTags

text \<open>\<^verbatim>\<open>isTestnetChain\<close> lives outside these sources and is a parameter.\<close>

definition defaultOnFetchResponse ::
  "(nat \<Rightarrow> bool) \<Rightarrow> Response \<Rightarrow> Chain \<Rightarrow> string \<Rightarrow> log_call list \<Rightarrow> log_call list" where
  "defaultOnFetchResponse isTestnetChain response chain url logger =
     (if resp_status response \<noteq> 200 then
        (let message = ''RPC provider returned non-200 status: '' @ toString_nat (resp_status response)
         in if isTestnetChain (chain_id chain)
            then logger @ [LoggerWarn ''wagmiConfig.ts'' ''client'' message
                             \<lparr>extra_chainId = chain_id chain, extra_url = url\<rparr>]
            else logger @ [LoggerError (Error message)
                             \<lparr>extra_chainId = chain_id chain, extra_url = url\<rparr>
                             \<lparr>tag_file = ''wagmiConfig.ts'', tag_function = ''client''\<rparr>])
      else logger)"

text \<open>Severity of a logger call.\<close>

datatype severity = Warning | Failure

fun severity_of :: "log_call \<Rightarrow> severity" where
  "severity_of (LoggerWarn _ _ _ _) = Warning"
| "severity_of (LoggerError _ _ _) = Failure"

fun extra_of :: "log_call \<Rightarrow> LogExtra" where
  "extra_of (LoggerWarn _ _ _ x) = x"
| "extra_of (LoggerError _ x _) = x"

text \<open>The source location a call carries: positional for warn, in the tags for error.\<close>

fun location_of :: "log_call \<Rightarrow> string \<times> string" where
  "location_of (LoggerWarn f g _ _) = (f, g)"
| "location_of (LoggerError _ _ t) = (tag_file t, tag_function t)"

section \<open>useEthersProvider: adapting a viem client to an ethers provider\<close>

text \<open>
  Clients and providers are objects: two of them are the same instance when they are the
  same reference. \<open>client_ref\<close> and \<open>provider_ref\<close> are those references. The TypeScript
  type of \<^verbatim>\<open>client.chain\<close> is \<^verbatim>\<open>Chain\<close>, but the source tests \<^verbatim>\<open>chain ? _ : _\<close>
  (under an eslint waiver) and documents \<^verbatim>\<open>chainId\<close> as the value used when the client
  provides no chain, so the field is optional here as it is at run time.
\<close>

type_synonym Transport = nat

record Client =
  client_ref :: nat
  chain :: "Chain option"
  transport :: Transport

record Network =
  net_chainId :: nat
  net_name :: string
  ensAddress :: "string option"

record Web3Provider =
  provider_ref :: nat
  provider_transport :: Transport
  provider_network :: Network

text \<open>
  The module-level \<^verbatim>\<open>WeakMap\<close> from client to provider, keyed by the client's reference,
  and the next unused reference, which \<^verbatim>\<open>new Web3Provider(_, _)\<close> takes.
\<close>

record provider_heap =
  providers :: "nat \<rightharpoonup> Web3Provider"
  next_ref :: nat

text \<open>
  \<^verbatim>\<open>chain.contracts?.ensRegistry?.address\<close>: the two \<^verbatim>\<open>?.\<close> guard \<^verbatim>\<open>contracts\<close> and
  \<^verbatim>\<open>ensRegistry\<close>; \<^verbatim>\<open>chain\<close> itself is read unguarded, so an undefined chain throws.
\<close>

definition ensAddress_of :: "Chain option \<Rightarrow> thrown + string option" where
  "ensAddress_of ch =
     (case ch of
        None \<Rightarrow> Inl (TypeError ''Cannot read properties of undefined (reading contracts)'')
      | Some c \<Rightarrow>
          Inr (case contracts c of
                 None \<Rightarrow> None
               | Some cs \<Rightarrow> (case ensRegistry cs of
                                None \<Rightarrow> None
                              | Some r \<Rightarrow> Some (contract_address r))))"

text \<open>
  \<^verbatim>\<open>new Web3Provider(transport, network)\<close> runs the constructor of the ethers library,
  which validates its arguments and may throw (it refuses, for one, a network whose name it
  knows under another chain id). The library is outside the sources: what the constructor
  throws for a transport and a network, if anything, is the parameter \<open>rejects\<close>. A
  constructor that returns yields the new object, under the reference given to it.
\<close>

type_synonym constructor_check = "Transport \<Rightarrow> Network \<Rightarrow> thrown option"

definition new_Web3Provider ::
  "constructor_check \<Rightarrow> nat \<Rightarrow> Transport \<Rightarrow> Network \<Rightarrow> thrown + Web3Provider" where
  "new_Web3Provider rejects r t nw =
     (case rejects t nw of
        Some e \<Rightarrow> Inl e
      | None \<Rightarrow> Inr \<lparr>provider_ref = r, provider_transport = t, provider_network = nw\<rparr>)"

definition clientToProvider ::
  "constructor_check \<Rightarrow> provider_heap \<Rightarrow> Client option \<Rightarrow> nat option \<Rightarrow>
     (thrown + Web3Provider option) \<times> provider_heap" where
  "clientToProvider rejects h client chainId =
     (case client of
        None \<Rightarrow> (Inr None, h)
      | Some c \<Rightarrow>
          (case ensAddress_of (chain c) of
             Inl e \<Rightarrow> (Inl e, h)
           | Inr ens \<Rightarrow>
               (let network =
                      (case chain c of
                         Some ch \<Rightarrow>
                           Some \<lparr>net_chainId = chain_id ch, net_name = chain_name ch, ensAddress = ens\<rparr>
                       | None \<Rightarrow>
                           (case chainId of
                              Some n \<Rightarrow>
                                if n \<noteq> 0
                                then Some \<lparr>net_chainId = n, net_name = ''Unsupported'', ensAddress = None\<rparr>
                                else None
                            | None \<Rightarrow> None))
                in case network of
                     None \<Rightarrow> (Inr None, h)
                   | Some nw \<Rightarrow>
                       (case providers h (client_ref c) of
                          Some cached \<Rightarrow> (Inr (Some cached), h)
                        | None \<Rightarrow>
                            (case new_Web3Provider rejects (next_ref h) (transport c) nw of
                               Inl e \<Rightarrow> (Inl e, h)
                             | Inr provider \<Rightarrow>
                                 (Inr (Some provider),
                                  h\<lparr>providers := (providers h)(client_ref c \<mapsto> provider),
                                    next_ref := Suc (next_ref h)\<rparr>))))))"

text \<open>
  What the hooks read from wagmi and from \<^verbatim>\<open>useAccount\<close> in one render:
  the account, the connector client (\<^verbatim>\<open>useConnectorClient({chainId}).data\<close>) and the
  disconnected client (\<^verbatim>\<open>useClient({chainId})\<close>); each client may be undefined.
\<close>

record Account =
  isConnected :: bool
  address :: "string option"
  account_chainId :: "nat option"

record ethers_hooks =
  hook_account :: Account
  connectorClient :: "Client option"
  disconnectedClient :: "Client option"

text \<open>\<^verbatim>\<open>account.chainId !== chainId ? disconnectedClient : (client ?? disconnectedClient)\<close>\<close>

definition selected_client :: "ethers_hooks \<Rightarrow> nat option \<Rightarrow> Client option" where
  "selected_client w chainId =
     (if account_chainId (hook_account w) \<noteq> chainId then disconnectedClient w
      else (case connectorClient w of Some c \<Rightarrow> Some c | None \<Rightarrow> disconnectedClient w))"

definition useEthersProvider ::
  "constructor_check \<Rightarrow> provider_heap \<Rightarrow> ethers_hooks \<Rightarrow> nat option \<Rightarrow>
     (thrown + Web3Provider option) \<times> provider_heap" where
  "useEthersProvider rejects h w chainId =
     clientToProvider rejects h (selected_client w chainId) chainId"

definition useEthersWeb3Provider ::
  "constructor_check \<Rightarrow> provider_heap \<Rightarrow> ethers_hooks \<Rightarrow> nat option \<Rightarrow>
     (thrown + Web3Provider option) \<times> provider_heap" where
  "useEthersWeb3Provider rejects h w chainId =
     clientToProvider rejects h (connectorClient w) chainId"

section \<open>useSwapCallback: trades, results and the two stores\<close>

datatype TradeType = EXACT_INPUT | EXACT_OUTPUT

datatype TradeFillType = Classic | UniswapX | UniswapXv2

text \<open>
  Modelled from the spec: the enum \<^verbatim>\<open>OffchainOrderType\<close> is declared in
  \<^verbatim>\<open>state/routing/types\<close>, outside the sources. The source names its member
  \<^verbatim>\<open>DUTCH_AUCTION\<close>, "a standard auction type" in the specification; the other members
  stand for the classifications a trade may carry instead.
\<close>

datatype OffchainOrderType = DUTCH_AUCTION | DUTCH_V2_AUCTION | LIMIT_ORDER | PRIORITY

text \<open>
  The SDK values the hook reads. A \<^verbatim>\<open>Percent\<close> is a fraction, a currency is an opaque
  token description, a \<^verbatim>\<open>CurrencyAmount\<close> has a currency and an integer \<^verbatim>\<open>quotient\<close>.
\<close>

record Percent =
  pct_numerator :: int
  pct_denominator :: int

datatype Currency = Currency nat string

record CurrencyAmount =
  currency :: Currency
  quotient_raw :: int

record SwapFee =
  fee_recipient :: string
  fee_percent :: Percent
  fee_amount :: int

text \<open>
  A trade, with the members the sources read. \<^verbatim>\<open>minimumAmountOut\<close> and
  \<^verbatim>\<open>maximumAmountIn\<close> are methods of the SDK's trade classes and are carried as
  functions of the slippage tolerance. \<^verbatim>\<open>swapFee\<close> is optional on every trade;
  \<^verbatim>\<open>offchainOrderType\<close> exists on off-chain-order trades.
\<close>

record InterfaceTrade =
  fillType :: TradeFillType
  tradeType :: TradeType
  inputAmount :: CurrencyAmount
  outputAmount :: CurrencyAmount
  minimumAmountOut :: "Percent \<Rightarrow> CurrencyAmount"
  maximumAmountIn :: "Percent \<Rightarrow> CurrencyAmount"
  swapFee :: "SwapFee option"
  offchainOrderType :: "OffchainOrderType option"

text \<open>
  Modelled from the spec: the type guards \<^verbatim>\<open>isClassicTrade\<close> and \<^verbatim>\<open>isUniswapXTrade\<close>
  of \<^verbatim>\<open>state/routing/utils\<close> are outside the sources. A trade is "tagged as one of
  on-chain-route trade, off-chain-order trade"; the guards read that tag, and an absent
  trade satisfies neither.
\<close>

definition isClassicTrade :: "InterfaceTrade option \<Rightarrow> bool" where
  "isClassicTrade trade = (case trade of None \<Rightarrow> False | Some t \<Rightarrow> fillType t = Classic)"

definition isUniswapXTrade :: "InterfaceTrade option \<Rightarrow> bool" where
  "isUniswapXTrade trade =
     (case trade of None \<Rightarrow> False | Some t \<Rightarrow> fillType t = UniswapX \<or> fillType t = UniswapXv2)"

subsection \<open>getUniversalRouterFeeFields\<close>

datatype BigNumber = BigNumber int

record FeeOptions =
  fee :: Percent
  fee_options_recipient :: string

record FlatFeeOptions =
  amount :: BigNumber
  flat_fee_recipient :: string

text \<open>
  The returned object literal has the key \<^verbatim>\<open>feeOptions\<close> or the key
  \<^verbatim>\<open>flatFeeOptions\<close>; a key that the literal does not write is \<open>None\<close>.
\<close>

record UniversalRouterFeeField =
  feeOptions :: "FeeOptions option"
  flatFeeOptions :: "FlatFeeOptions option"

definition getUniversalRouterFeeFields :: "InterfaceTrade option \<Rightarrow> UniversalRouterFeeField option" where
  "getUniversalRouterFeeFields trade =
     (if \<not> isClassicTrade trade then None
      else case trade of
             None \<Rightarrow> None
           | Some t \<Rightarrow>
               (case swapFee t of
                  None \<Rightarrow> None
                | Some f \<Rightarrow>
                    if tradeType t = EXACT_INPUT
                    then Some \<lparr>feeOptions =
                                 Some \<lparr>fee = fee_percent f, fee_options_recipient = fee_recipient f\<rparr>,
                               flatFeeOptions = None\<rparr>
                    else Some \<lparr>feeOptions = None,
                               flatFeeOptions =
                                 Some \<lparr>amount = BigNumber (fee_amount f),
                                       flat_fee_recipient = fee_recipient f\<rparr>\<rparr>))"

subsection \<open>Swap results, transaction info and the stores\<close>

record OrderResponse =
  orderHash :: string
  order_deadline :: nat
  encodedOrder :: string

record TransactionResponse =
  hash :: string

text \<open>
  \<^verbatim>\<open>SwapResult\<close> is the union of what the two strategies resolve to: a classic result
  has a transaction response and an optional \<^verbatim>\<open>deadline\<close> (a BigNumber), an off-chain-order
  result of either version has an order response.
\<close>

datatype SwapResult =
    ClassicSwapResult TransactionResponse "int option"
  | UniswapXSwapResult OrderResponse
  | UniswapXv2SwapResult OrderResponse

fun result_type :: "SwapResult \<Rightarrow> TradeFillType" where
  "result_type (ClassicSwapResult _ _) = Classic"
| "result_type (UniswapXSwapResult _) = UniswapX"
| "result_type (UniswapXv2SwapResult _) = UniswapXv2"

datatype TransactionType = Swap

text \<open>
  \<^verbatim>\<open>TransactionInfo\<close> as the object literal builds it: four keys always, then the keys
  of one of the two spread objects. A key that was not written is \<open>None\<close>.
\<close>

record TransactionInfo =
  info_type :: TransactionType
  inputCurrencyId :: string
  outputCurrencyId :: string
  isUniswapXOrder :: bool
  info_tradeType :: TradeType
  inputCurrencyAmountRaw :: "string option"
  expectedOutputCurrencyAmountRaw :: "string option"
  minimumOutputCurrencyAmountRaw :: "string option"
  maximumInputCurrencyAmountRaw :: "string option"
  outputCurrencyAmountRaw :: "string option"
  expectedInputCurrencyAmountRaw :: "string option"

text \<open>
  The argument of \<^verbatim>\<open>addOrder\<close>. \<^verbatim>\<open>offerer\<close> and \<^verbatim>\<open>chainId\<close> receive
  \<^verbatim>\<open>account.address\<close> and \<^verbatim>\<open>supportedConnectedChainId\<close>, both possibly undefined
  by their types (the latter is cast with \<^verbatim>\<open>as UniverseChainId\<close>), so they are stored as
  read.
\<close>

record UniswapXOrderDetails =
  offerer :: "string option"
  order_orderHash :: string
  order_chainId :: "nat option"
  expiry :: nat
  swapInfo :: TransactionInfo
  order_encodedOrder :: string
  order_offchainOrderType :: "OffchainOrderType option"

text \<open>The lifecycle statuses the source's documentation lists: pending, confirmed, failed.\<close>

datatype TransactionStatus = Pending | Confirmed | Failed

record TransactionDetails =
  tx_response :: TransactionResponse
  tx_info :: TransactionInfo
  tx_deadline :: "int option"
  tx_status :: TransactionStatus

text \<open>
  The state the swap hooks act on: the order store, the transaction store, and the chain
  switches requested from the wallet through \<^verbatim>\<open>selectChain\<close>.
\<close>

record swap_state =
  orders :: "UniswapXOrderDetails list"
  transactions :: "TransactionDetails list"
  switchAttempts :: "nat list"

text \<open>
  Modelled from the spec: \<^verbatim>\<open>useAddOrder\<close>, \<^verbatim>\<open>useTransactionAdder\<close> and
  \<^verbatim>\<open>useTransaction\<close> belong to the stores, outside the sources. The specification
  describes "an order-recording store and a transaction-recording store (both synchronous
  append operations)", the transaction record holding "response object, computed
  TransactionInfo, optional deadline", and "a transaction-lookup store (synchronous read by
  hash)". A transaction that was just added is pending.
\<close>

definition addOrder :: "UniswapXOrderDetails \<Rightarrow> swap_state \<Rightarrow> swap_state" where
  "addOrder order st = st\<lparr>orders := orders st @ [order]\<rparr>"

definition addTransaction ::
  "TransactionResponse \<Rightarrow> TransactionInfo \<Rightarrow> int option \<Rightarrow> swap_state \<Rightarrow> swap_state" where
  "addTransaction response info deadline st =
     st\<lparr>transactions := transactions st @
          [\<lparr>tx_response = response, tx_info = info, tx_deadline = deadline, tx_status = Pending\<rparr>]\<rparr>"

definition useTransaction :: "swap_state \<Rightarrow> string option \<Rightarrow> TransactionDetails option" where
  "useTransaction st transactionHash =
     (case transactionHash of
        None \<Rightarrow> None
      | Some h \<Rightarrow> find (\<lambda>t. hash (tx_response t) = h) (transactions st))"

subsection \<open>The swap callback\<close>

text \<open>
  Everything the callback closes over in one render. The two strategies are the callbacks
  returned by \<^verbatim>\<open>useUniswapXSwapCallback\<close> and \<^verbatim>\<open>useUniversalRouterSwapCallback\<close>;
  they take no argument, so each is given by what it settles to when awaited.
  \<^verbatim>\<open>selectChain\<close> settles to a boolean. \<^verbatim>\<open>isEVMChain\<close>, \<^verbatim>\<open>currencyId\<close>
  and \<^verbatim>\<open>useSupportedChainId\<close> (whose result is \<open>supportedConnectedChainId\<close>) are
  outside the sources and are parameters.
\<close>

record swap_env =
  trade :: "InterfaceTrade option"
  allowedSlippage :: Percent
  account :: Account
  supportedConnectedChainId :: "nat option"
  swapChainId :: "nat option"
  isEVMChain :: "nat \<Rightarrow> bool"
  selectChain :: "nat \<Rightarrow> bool"
  uniswapXSwapCallback :: "thrown + SwapResult"
  universalRouterSwapCallback :: "thrown + SwapResult"
  currencyId :: "Currency \<Rightarrow> string"

text \<open>\<^verbatim>\<open>isUniswapXTrade(trade) ? uniswapXSwapCallback : universalRouterSwapCallback\<close>\<close>

definition swapCallback :: "swap_env \<Rightarrow> thrown + SwapResult" where
  "swapCallback env =
     (if isUniswapXTrade (trade env) then uniswapXSwapCallback env
      else universalRouterSwapCallback env)"

text \<open>The object literal \<^verbatim>\<open>swapInfo\<close> of the callback.\<close>

definition build_swapInfo :: "swap_env \<Rightarrow> InterfaceTrade \<Rightarrow> SwapResult \<Rightarrow> TransactionInfo" where
  "build_swapInfo env t result =
     (if tradeType t = EXACT_INPUT
      then \<lparr>info_type = Swap,
            inputCurrencyId = currencyId env (currency (inputAmount t)),
            outputCurrencyId = currencyId env (currency (outputAmount t)),
            isUniswapXOrder = (result_type result = UniswapX \<or> result_type result = UniswapXv2),
            info_tradeType = EXACT_INPUT,
            inputCurrencyAmountRaw = Some (toString_int (quotient_raw (inputAmount t))),
            expectedOutputCurrencyAmountRaw = Some (toString_int (quotient_raw (outputAmount t))),
            minimumOutputCurrencyAmountRaw =
              Some (toString_int (quotient_raw (minimumAmountOut t (allowedSlippage env)))),
            maximumInputCurrencyAmountRaw = None,
            outputCurrencyAmountRaw = None,
            expectedInputCurrencyAmountRaw = None\<rparr>
      else \<lparr>info_type = Swap,
            inputCurrencyId = currencyId env (currency (inputAmount t)),
            outputCurrencyId = currencyId env (currency (outputAmount t)),
            isUniswapXOrder = (result_type result = UniswapX \<or> result_type result = UniswapXv2),
            info_tradeType = EXACT_OUTPUT,
            inputCurrencyAmountRaw = None,
            expectedOutputCurrencyAmountRaw = None,
            minimumOutputCurrencyAmountRaw = None,
            maximumInputCurrencyAmountRaw =
              Some (toString_int (quotient_raw (maximumAmountIn t (allowedSlippage env)))),
            outputCurrencyAmountRaw = Some (toString_int (quotient_raw (outputAmount t))),
            expectedInputCurrencyAmountRaw = Some (toString_int (quotient_raw (inputAmount t)))\<rparr>)"

text \<open>The object passed to \<^verbatim>\<open>addOrder\<close>.\<close>

definition order_details ::
  "swap_env \<Rightarrow> InterfaceTrade \<Rightarrow> OrderResponse \<Rightarrow> TransactionInfo \<Rightarrow> UniswapXOrderDetails" where
  "order_details env t response info =
     \<lparr>offerer = address (account env),
      order_orderHash = orderHash response,
      order_chainId = supportedConnectedChainId env,
      expiry = order_deadline response,
      swapInfo = info,
      order_encodedOrder = encodedOrder response,
      order_offchainOrderType =
        (if isUniswapXTrade (Some t) then offchainOrderType t else Some DUTCH_AUCTION)\<rparr>"

text \<open>
  \<^verbatim>\<open>BigNumber.toNumber()\<close> returns the integer as a JavaScript number when its magnitude
  fits in 53 bits and throws otherwise. \<^verbatim>\<open>result.deadline?.toNumber()\<close> is undefined for
  an undefined deadline.
\<close>

definition toNumber :: "int \<Rightarrow> thrown + int" where
  "toNumber b = (if \<bar>b\<bar> < 2 ^ 53 then Inr b else Inl (Error ''overflow''))"

definition deadline_toNumber :: "int option \<Rightarrow> thrown + int option" where
  "deadline_toNumber deadline =
     (case deadline of
        None \<Rightarrow> Inr None
      | Some b \<Rightarrow> (case toNumber b of Inl e \<Rightarrow> Inl e | Inr n \<Rightarrow> Inr (Some n)))"

text \<open>
  The callback after its validation: await the strategy, build \<^verbatim>\<open>swapInfo\<close>, record
  by the result's tag (the \<^verbatim>\<open>switch\<close>, whose \<^verbatim>\<open>default\<close> is the classic result), return
  the result. The arguments of \<^verbatim>\<open>addTransaction\<close> are evaluated before the call, so a
  throwing \<^verbatim>\<open>toNumber\<close> ends the callback before anything is recorded.
\<close>

definition execute_and_record ::
  "swap_env \<Rightarrow> InterfaceTrade \<Rightarrow> swap_state \<Rightarrow> (thrown + SwapResult) \<times> swap_state" where
  "execute_and_record env t st =
     (case swapCallback env of
        Inl e \<Rightarrow> (Inl e, st)
      | Inr result \<Rightarrow>
          (let info = build_swapInfo env t result
           in case result of
                UniswapXSwapResult response \<Rightarrow>
                  (Inr result, addOrder (order_details env t response info) st)
              | UniswapXv2SwapResult response \<Rightarrow>
                  (Inr result, addOrder (order_details env t response info) st)
              | ClassicSwapResult response deadline \<Rightarrow>
                  (case deadline_toNumber deadline of
                     Inl e \<Rightarrow> (Inl e, st)
                   | Inr n \<Rightarrow> (Inr result, addTransaction response info n st))))"

text \<open>
  The callback returned by \<^verbatim>\<open>useSwapCallback\<close>: the \<^verbatim>\<open>if\<close>/\<^verbatim>\<open>else if\<close> chain of
  validations in the order of the source, then the rest. A call of \<^verbatim>\<open>selectChain\<close> is
  recorded in \<open>switchAttempts\<close>.
\<close>

definition useSwapCallback :: "swap_env \<Rightarrow> swap_state \<Rightarrow> (thrown + SwapResult) \<times> swap_state" where
  "useSwapCallback env st =
     (case trade env of
        None \<Rightarrow> (Inl (Error ''missing trade''), st)
      | Some t \<Rightarrow>
          if \<not> isConnected (account env) \<or> \<not> truthy_string (address (account env))
          then (Inl (Error ''wallet must be connected to swap''), st)
          else (case swapChainId env of
                  None \<Rightarrow> (Inl (Error ''missing swap chainId''), st)
                | Some c \<Rightarrow>
                    if c = 0
                    then (Inl (Error ''missing swap chainId''), st)
                    else if \<not> isEVMChain env c
                    then (Inl (Error ''non EVM chain in legacy limits flow''), st)
                    else if \<not> truthy_number (supportedConnectedChainId env)
                            \<or> supportedConnectedChainId env \<noteq> Some c
                    then (let st1 = st\<lparr>switchAttempts := switchAttempts st @ [c]\<rparr>
                          in if \<not> selectChain env c
                             then (Inl (Error ''wallet must be connected to correct chain to swap''), st1)
                             else execute_and_record env t st1)
                    else execute_and_record env t st))"

subsection \<open>useSwapTransactionStatus\<close>

text \<open>\<^verbatim>\<open>swapResult?.type === TradeFillType.Classic ? swapResult.response.hash : undefined\<close>\<close>

definition classic_hash :: "SwapResult option \<Rightarrow> string option" where
  "classic_hash swapResult =
     (case swapResult of
        Some (ClassicSwapResult response _) \<Rightarrow> Some (hash response)
      | _ \<Rightarrow> None)"

definition useSwapTransactionStatus ::
  "swap_state \<Rightarrow> SwapResult option \<Rightarrow> TransactionStatus option \<times> swap_state" where
  "useSwapTransactionStatus st swapResult =
     (let transaction = useTransaction st (classic_hash swapResult)
      in case transaction of
           None \<Rightarrow> (None, st)
         | Some t \<Rightarrow> (Some (tx_status t), st))"

section \<open>Concrete inputs\<close>

text \<open>
  A trade of 1000 units of one token for 5 units of another, whose amount bounds scale
  the quoted amounts by the slippage tolerance; an environment with a connected wallet and
  the target chain 130, in which both strategies succeed and the wallet accepts a chain
  switch; an empty state; a mainnet and a testnet chain record.
\<close>

definition sample_trade :: "TradeFillType \<Rightarrow> TradeType \<Rightarrow> InterfaceTrade" where
  "sample_trade ft tt =
     \<lparr>fillType = ft,
      tradeType = tt,
      inputAmount = \<lparr>currency = Currency 130 ''USDC'', quotient_raw = 1000\<rparr>,
      outputAmount = \<lparr>currency = Currency 130 ''WETH'', quotient_raw = 5\<rparr>,
      minimumAmountOut =
        (\<lambda>p. \<lparr>currency = Currency 130 ''WETH'',
               quotient_raw = (5 * pct_denominator p) div (pct_denominator p + pct_numerator p)\<rparr>),
      maximumAmountIn =
        (\<lambda>p. \<lparr>currency = Currency 130 ''USDC'',
               quotient_raw = (1000 * (pct_denominator p + pct_numerator p)) div pct_denominator p\<rparr>),
      swapFee = (if ft = Classic
                 then Some \<lparr>fee_recipient = ''0xfee'',
                            fee_percent = \<lparr>pct_numerator = 25, pct_denominator = 10000\<rparr>,
                            fee_amount = 2\<rparr>
                 else None),
      offchainOrderType = (if ft = Classic then None else Some DUTCH_V2_AUCTION)\<rparr>"

definition sample_env :: "InterfaceTrade option \<Rightarrow> nat option \<Rightarrow> swap_env" where
  "sample_env tr connected =
     \<lparr>trade = tr,
      allowedSlippage = \<lparr>pct_numerator = 1, pct_denominator = 100\<rparr>,
      account = \<lparr>isConnected = True, address = Some ''0xabc'', account_chainId = connected\<rparr>,
      supportedConnectedChainId = connected,
      swapChainId = Some 130,
      isEVMChain = (\<lambda>c. True),
      selectChain = (\<lambda>c. True),
      uniswapXSwapCallback =
        Inr (UniswapXv2SwapResult
               \<lparr>orderHash = ''0xhash'', order_deadline = 1700000000, encodedOrder = ''0xorder''\<rparr>),
      universalRouterSwapCallback =
        Inr (ClassicSwapResult \<lparr>hash = ''0xtx''\<rparr> (Some 1700000000)),
      currencyId = (\<lambda>c. case c of Currency n a \<Rightarrow> a)\<rparr>"

definition empty_state :: swap_state where
  "empty_state = \<lparr>orders = [], transactions = [], switchAttempts = []\<rparr>"

definition no_rpcUrls :: RpcUrls where
  "no_rpcUrls = \<lparr>interface = None, default = None, public = None, fallback = None\<rparr>"

definition mainnet :: Chain where
  "mainnet = \<lparr>chain_id = 1, chain_name = ''Ethereum'',
              contracts = Some \<lparr>ensRegistry = Some \<lparr>contract_address = ''0xens''\<rparr>\<rparr>,
              rpcUrls = no_rpcUrls\<rparr>"

definition sepolia :: Chain where
  "sepolia = \<lparr>chain_id = 11155111, chain_name = ''Sepolia'', contracts = None,
              rpcUrls = no_rpcUrls\<rparr>"

text \<open>
  A constructor check in the manner of the ethers library: the network names
  \<open>homestead\<close> and \<open>sepolia\<close> are known, and a network of a known name must carry the
  chain id known for it, or 0.
\<close>

definition known_network_check :: constructor_check where
  "known_network_check t nw =
     (case map_of [(''homestead'', 1), (''sepolia'', 11155111)] (net_name nw) of
        None \<Rightarrow> None
      | Some standard \<Rightarrow>
          if net_chainId nw \<noteq> 0 \<and> net_chainId nw \<noteq> standard
          then Some (Error ''network chainId mismatch'')
          else None)"

definition empty_heap :: provider_heap where
  "empty_heap = \<lparr>providers = Map.empty, next_ref = 0\<rparr>"

section \<open>The RPC endpoint order\<close>

text \<open>
  Building the set from left to right keeps, after the members already present, the first
  occurrences of the new elements.
\<close>

lemma Set_add_fold:
  "foldl Set_add acc xs = acc @ first_seen (filter (\<lambda>y. y \<notin> set acc) xs)"
proof (induction xs arbitrary: acc)
  case Nil
  then show ?case by simp
next
  case (Cons x xs)
  show ?case
  proof (cases "x \<in> set acc")
    case True
    then show ?thesis using Cons.IH [of acc] by (simp add: Set_add_def)
  next
    case False
    have "filter (\<lambda>y. y \<notin> set (acc @ [x])) xs = filter (\<lambda>y. y \<noteq> x) (filter (\<lambda>y. y \<notin> set acc) xs)"
      by (induction xs) auto
    then show ?thesis using False Cons.IH [of "acc @ [x]"] by (simp add: Set_add_def)
  qed
qed

lemma new_Set_first_seen: "new_Set xs = first_seen xs"
  by (simp add: new_Set_def Set_add_fold)

lemma set_first_seen: "set (first_seen xs) = set xs"
  by (induction xs rule: first_seen.induct) auto

lemma distinct_first_seen: "distinct (first_seen xs)"
  by (induction xs rule: first_seen.induct) (auto simp: set_first_seen)

text \<open>
  Claim C5. For every chain record, \<open>orderedTransportUrls\<close> returns the interface, default,
  public and fallback HTTP URL lists concatenated in that order, with empty entries removed
  and duplicates removed keeping the first occurrence: it equals the function that the
  specification words describe, its result has no duplicate, and its members are the
  non-empty URLs of the four categories. For the categories interface \<open>[a, b]\<close>, default
  \<open>[b, c]\<close>, public \<open>[d]\<close>, fallback \<open>[]\<close>, with \<open>a\<close>, \<open>b\<close>, \<open>c\<close>, \<open>d\<close> distinct and
  non-empty, the result is \<open>[a, b, c, d]\<close>.
\<close>

theorem orderedTransportUrls_order:
  "orderedTransportUrls ci = spec_endpoint_order ci
   \<and> distinct (orderedTransportUrls ci)
   \<and> set (orderedTransportUrls ci) =
       (set (http_or_empty (interface (rpcUrls ci))) \<union> set (http_or_empty (default (rpcUrls ci)))
        \<union> set (http_or_empty (public (rpcUrls ci))) \<union> set (http_or_empty (fallback (rpcUrls ci)))) - {[]}
   \<and> (distinct [a, b, c, d] \<and> [] \<notin> set [a, b, c, d]
        \<and> http_or_empty (interface (rpcUrls ci)) = [a, b]
        \<and> http_or_empty (default (rpcUrls ci)) = [b, c]
        \<and> http_or_empty (public (rpcUrls ci)) = [d]
        \<and> http_or_empty (fallback (rpcUrls ci)) = []
      \<longrightarrow> orderedTransportUrls ci = [a, b, c, d])"
proof -
  have eq: "orderedTransportUrls ci = spec_endpoint_order ci"
    by (simp add: orderedTransportUrls_def spec_endpoint_order_def Array_from_def new_Set_first_seen)
  have d: "distinct (orderedTransportUrls ci)"
    by (simp add: eq spec_endpoint_order_def distinct_first_seen)
  have s: "set (orderedTransportUrls ci) =
       (set (http_or_empty (interface (rpcUrls ci))) \<union> set (http_or_empty (default (rpcUrls ci)))
        \<union> set (http_or_empty (public (rpcUrls ci))) \<union> set (http_or_empty (fallback (rpcUrls ci)))) - {[]}"
    by (auto simp add: eq spec_endpoint_order_def set_first_seen)
  have ex: "distinct [a, b, c, d] \<and> [] \<notin> set [a, b, c, d]
        \<and> http_or_empty (interface (rpcUrls ci)) = [a, b]
        \<and> http_or_empty (default (rpcUrls ci)) = [b, c]
        \<and> http_or_empty (public (rpcUrls ci)) = [d]
        \<and> http_or_empty (fallback (rpcUrls ci)) = []
      \<longrightarrow> orderedTransportUrls ci = [a, b, c, d]"
    by (auto simp add: eq spec_endpoint_order_def)
  from eq d s ex show ?thesis by blast
qed

theorem orderedTransportUrls_order_witness:
  "distinct [''https://a'', ''https://b'', ''https://c'', ''https://d'']
   \<and> orderedTransportUrls
     \<lparr>chain_id = 1, chain_name = ''Ethereum'', contracts = None,
      rpcUrls = \<lparr>interface = Some \<lparr>http = [''https://a'', ''https://b'']\<rparr>,
                 default = Some \<lparr>http = [''https://b'', ''https://c'']\<rparr>,
                 public = Some \<lparr>http = [''https://d'']\<rparr>,
                 fallback = None\<rparr>\<rparr>
   = [''https://a'', ''https://b'', ''https://c'', ''https://d'']"
proof -
  let ?ci = "\<lparr>chain_id = 1, chain_name = ''Ethereum'', contracts = None,
      rpcUrls = \<lparr>interface = Some \<lparr>http = [''https://a'', ''https://b'']\<rparr>,
                 default = Some \<lparr>http = [''https://b'', ''https://c'']\<rparr>,
                 public = Some \<lparr>http = [''https://d'']\<rparr>,
                 fallback = None\<rparr>\<rparr>"
  have h: "distinct [''https://a'', ''https://b'', ''https://c'', ''https://d'']
        \<and> [] \<notin> set [''https://a'', ''https://b'', ''https://c'', ''https://d'']
        \<and> http_or_empty (interface (rpcUrls ?ci)) = [''https://a'', ''https://b'']
        \<and> http_or_empty (default (rpcUrls ?ci)) = [''https://b'', ''https://c'']
        \<and> http_or_empty (public (rpcUrls ?ci)) = [''https://d'']
        \<and> http_or_empty (fallback (rpcUrls ?ci)) = []"
    by (simp add: http_or_empty_def)
  from orderedTransportUrls_order
         [of ?ci "''https://a''" "''https://b''" "''https://c''" "''https://d''"] h
  have "orderedTransportUrls ?ci = [''https://a'', ''https://b'', ''https://c'', ''https://d'']"
    by blast
  with h show ?thesis by blast
qed

section \<open>The default response handler\<close>

text \<open>
  Claim C8. For every response, chain and URL, \<open>defaultOnFetchResponse\<close> leaves the log as
  it is when the status is 200; for any other status it makes exactly one logger call, a
  warning when the chain is a testnet and an error otherwise, with the chain id and the URL
  in its \<open>extra\<close> and the source location \<open>wagmiConfig.ts\<close>, \<open>client\<close> attached.
\<close>

theorem defaultOnFetchResponse_logging:
  "(resp_status r = 200 \<longrightarrow> defaultOnFetchResponse isTestnetChain r ci url lg = lg)
   \<and> (resp_status r \<noteq> 200 \<longrightarrow>
        (\<exists>e. defaultOnFetchResponse isTestnetChain r ci url lg = lg @ [e]
           \<and> severity_of e = (if isTestnetChain (chain_id ci) then Warning else Failure)
           \<and> extra_of e = \<lparr>extra_chainId = chain_id ci, extra_url = url\<rparr>
           \<and> location_of e = (''wagmiConfig.ts'', ''client'')))"
  by (simp add: defaultOnFetchResponse_def Let_def)

theorem defaultOnFetchResponse_logging_witness:
  "resp_status \<lparr>resp_status = 200\<rparr> = 200
   \<and> resp_status \<lparr>resp_status = 500\<rparr> \<noteq> 200
   \<and> defaultOnFetchResponse (\<lambda>n. n = 11155111) \<lparr>resp_status = 200\<rparr> mainnet ''https://rpc'' [] = []
   \<and> (\<exists>e. defaultOnFetchResponse (\<lambda>n. n = 11155111) \<lparr>resp_status = 500\<rparr> sepolia ''https://rpc'' [] = [e]
          \<and> severity_of e = Warning)
   \<and> (\<exists>e. defaultOnFetchResponse (\<lambda>n. n = 11155111) \<lparr>resp_status = 500\<rparr> mainnet ''https://rpc'' [] = [e]
          \<and> severity_of e = Failure)"
  using
    defaultOnFetchResponse_logging
      [of "\<lparr>resp_status = 200\<rparr>" "\<lambda>n. n = 11155111" mainnet "''https://rpc''" "[]"]
    defaultOnFetchResponse_logging
      [of "\<lparr>resp_status = 500\<rparr>" "\<lambda>n. n = 11155111" sepolia "''https://rpc''" "[]"]
    defaultOnFetchResponse_logging
      [of "\<lparr>resp_status = 500\<rparr>" "\<lambda>n. n = 11155111" mainnet "''https://rpc''" "[]"]
  by (simp add: mainnet_def sepolia_def) blast

text \<open>The message of the call carries the status in decimal.\<close>

lemma toString_nat_500: "toString_nat 500 = ''500''"
  by (simp add: toString_nat.simps digit_char_def)

lemma defaultOnFetchResponse_500_testnet:
  "defaultOnFetchResponse (\<lambda>n. n = 11155111) \<lparr>resp_status = 500\<rparr> sepolia ''https://rpc'' []
   = [LoggerWarn ''wagmiConfig.ts'' ''client'' ''RPC provider returned non-200 status: 500''
        \<lparr>extra_chainId = 11155111, extra_url = ''https://rpc''\<rparr>]"
  by (simp add: defaultOnFetchResponse_def toString_nat_500 sepolia_def)

section \<open>The Universal Router fee fields\<close>

text \<open>
  Claim C10. \<open>getUniversalRouterFeeFields\<close> returns nothing if and only if the trade is
  absent, is not a classic trade, or carries no swap fee. Otherwise an exact-input trade
  gives only \<open>feeOptions\<close>, with the fee's percent and recipient, and any other trade type
  gives only \<open>flatFeeOptions\<close>, with the fee amount as a BigNumber and the recipient; a
  returned object never has both keys and never has neither.
\<close>

theorem getUniversalRouterFeeFields_shape:
  "(getUniversalRouterFeeFields tr = None \<longleftrightarrow>
      (tr = None \<or> \<not> isClassicTrade tr \<or> (\<exists>t. tr = Some t \<and> swapFee t = None)))
   \<and> (\<forall>t f. tr = Some t \<and> isClassicTrade tr \<and> swapFee t = Some f \<and> tradeType t = EXACT_INPUT \<longrightarrow>
          getUniversalRouterFeeFields tr =
            Some \<lparr>feeOptions = Some \<lparr>fee = fee_percent f, fee_options_recipient = fee_recipient f\<rparr>,
                  flatFeeOptions = None\<rparr>)
   \<and> (\<forall>t f. tr = Some t \<and> isClassicTrade tr \<and> swapFee t = Some f \<and> tradeType t \<noteq> EXACT_INPUT \<longrightarrow>
          getUniversalRouterFeeFields tr =
            Some \<lparr>feeOptions = None,
                  flatFeeOptions = Some \<lparr>amount = BigNumber (fee_amount f),
                                          flat_fee_recipient = fee_recipient f\<rparr>\<rparr>)
   \<and> (\<forall>r. getUniversalRouterFeeFields tr = Some r \<longrightarrow>
          (feeOptions r = None) \<noteq> (flatFeeOptions r = None))"
  by (auto simp add: getUniversalRouterFeeFields_def isClassicTrade_def split: option.splits)

theorem getUniversalRouterFeeFields_shape_witness:
  "isClassicTrade (Some (sample_trade Classic EXACT_INPUT))
   \<and> getUniversalRouterFeeFields (Some (sample_trade Classic EXACT_INPUT)) =
       Some \<lparr>feeOptions = Some \<lparr>fee = \<lparr>pct_numerator = 25, pct_denominator = 10000\<rparr>,
                                 fee_options_recipient = ''0xfee''\<rparr>,
             flatFeeOptions = None\<rparr>
   \<and> getUniversalRouterFeeFields (Some (sample_trade Classic EXACT_OUTPUT)) =
       Some \<lparr>feeOptions = None,
             flatFeeOptions = Some \<lparr>amount = BigNumber 2, flat_fee_recipient = ''0xfee''\<rparr>\<rparr>
   \<and> getUniversalRouterFeeFields (Some (sample_trade UniswapX EXACT_INPUT)) = None
   \<and> getUniversalRouterFeeFields None = None"
  using
    getUniversalRouterFeeFields_shape [of "Some (sample_trade Classic EXACT_INPUT)"]
    getUniversalRouterFeeFields_shape [of "Some (sample_trade Classic EXACT_OUTPUT)"]
    getUniversalRouterFeeFields_shape [of "Some (sample_trade UniswapX EXACT_INPUT)"]
    getUniversalRouterFeeFields_shape [of None]
  by (simp add: isClassicTrade_def sample_trade_def)

section \<open>The swap status query\<close>

lemma find_Some_member: "find P xs = Some x \<Longrightarrow> P x \<and> x \<in> set xs"
  by (induction xs) (auto split: if_splits)

lemma status_Some_iff:
  "fst (useSwapTransactionStatus st sr) = Some s \<longleftrightarrow>
      (\<exists>response deadline t. sr = Some (ClassicSwapResult response deadline)
         \<and> find (\<lambda>t. hash (tx_response t) = hash response) (transactions st) = Some t
         \<and> tx_status t = s)"
  by (auto simp add: useSwapTransactionStatus_def useTransaction_def classic_hash_def Let_def
      split: option.splits SwapResult.splits)

lemma status_present_iff:
  "fst (useSwapTransactionStatus st sr) \<noteq> None \<longleftrightarrow>
      (\<exists>response deadline. sr = Some (ClassicSwapResult response deadline)
         \<and> (\<exists>t \<in> set (transactions st). hash (tx_response t) = hash response))"
  by (auto simp add: useSwapTransactionStatus_def useTransaction_def classic_hash_def Let_def
        find_None_iff
      split: option.splits SwapResult.splits dest: find_Some_member)

lemma status_state_unchanged: "snd (useSwapTransactionStatus st sr) = st"
  by (simp add: useSwapTransactionStatus_def Let_def split: option.splits)

text \<open>
  Claim C7. \<open>useSwapTransactionStatus\<close> returns a status exactly when the given result is a
  classic result whose transaction hash has a record in the transaction store, and the
  status is that of the record found for the hash; for an off-chain-order result (whatever
  the order store holds), for an absent result and for a hash without a record it returns
  nothing; the state after the query is the state before it.
\<close>

theorem useSwapTransactionStatus_lookup:
  "(fst (useSwapTransactionStatus st sr) = Some s \<longleftrightarrow>
      (\<exists>response deadline t. sr = Some (ClassicSwapResult response deadline)
         \<and> find (\<lambda>t. hash (tx_response t) = hash response) (transactions st) = Some t
         \<and> tx_status t = s))
   \<and> (fst (useSwapTransactionStatus st sr) \<noteq> None \<longleftrightarrow>
      (\<exists>response deadline. sr = Some (ClassicSwapResult response deadline)
         \<and> (\<exists>t \<in> set (transactions st). hash (tx_response t) = hash response)))
   \<and> (\<forall>r. sr = Some (UniswapXSwapResult r) \<or> sr = Some (UniswapXv2SwapResult r) \<longrightarrow>
          fst (useSwapTransactionStatus st sr) = None)
   \<and> (sr = None \<longrightarrow> fst (useSwapTransactionStatus st sr) = None)
   \<and> (\<forall>response deadline. sr = Some (ClassicSwapResult response deadline)
          \<and> hash response \<notin> (\<lambda>t. hash (tx_response t)) ` set (transactions st) \<longrightarrow>
          fst (useSwapTransactionStatus st sr) = None)
   \<and> snd (useSwapTransactionStatus st sr) = st"
proof (intro conjI)
  show "fst (useSwapTransactionStatus st sr) = Some s \<longleftrightarrow>
      (\<exists>response deadline t. sr = Some (ClassicSwapResult response deadline)
         \<and> find (\<lambda>t. hash (tx_response t) = hash response) (transactions st) = Some t
         \<and> tx_status t = s)"
    by (rule status_Some_iff)
  show "fst (useSwapTransactionStatus st sr) \<noteq> None \<longleftrightarrow>
      (\<exists>response deadline. sr = Some (ClassicSwapResult response deadline)
         \<and> (\<exists>t \<in> set (transactions st). hash (tx_response t) = hash response))"
    by (rule status_present_iff)
  show "\<forall>r. sr = Some (UniswapXSwapResult r) \<or> sr = Some (UniswapXv2SwapResult r) \<longrightarrow>
          fst (useSwapTransactionStatus st sr) = None"
    using status_present_iff [of st sr] by auto
  show "sr = None \<longrightarrow> fst (useSwapTransactionStatus st sr) = None"
    using status_present_iff [of st sr] by auto
  show "\<forall>response deadline. sr = Some (ClassicSwapResult response deadline)
          \<and> hash response \<notin> (\<lambda>t. hash (tx_response t)) ` set (transactions st) \<longrightarrow>
          fst (useSwapTransactionStatus st sr) = None"
    using status_present_iff [of st sr] by force
  show "snd (useSwapTransactionStatus st sr) = st"
    by (rule status_state_unchanged)
qed

theorem useSwapTransactionStatus_lookup_witness:
  "fst (useSwapTransactionStatus
          (snd (useSwapCallback (sample_env (Some (sample_trade Classic EXACT_INPUT)) (Some 130)) empty_state))
          (Some (ClassicSwapResult \<lparr>hash = ''0xtx''\<rparr> (Some 1700000000)))) = Some Pending
   \<and> fst (useSwapTransactionStatus
          (snd (useSwapCallback (sample_env (Some (sample_trade Classic EXACT_INPUT)) (Some 130)) empty_state))
          (Some (ClassicSwapResult \<lparr>hash = ''0xother''\<rparr> None))) = None
   \<and> fst (useSwapTransactionStatus
          (snd (useSwapCallback (sample_env (Some (sample_trade UniswapX EXACT_INPUT)) (Some 130)) empty_state))
          (Some (UniswapXv2SwapResult
               \<lparr>orderHash = ''0xhash'', order_deadline = 1700000000, encodedOrder = ''0xorder''\<rparr>))) = None"
proof -
  let ?st = "snd (useSwapCallback (sample_env (Some (sample_trade Classic EXACT_INPUT)) (Some 130)) empty_state)"
  let ?sx = "snd (useSwapCallback (sample_env (Some (sample_trade UniswapX EXACT_INPUT)) (Some 130)) empty_state)"
  have tx: "map (\<lambda>t. (hash (tx_response t), tx_status t)) (transactions ?st) = [(''0xtx'', Pending)]"
    by (simp add: useSwapCallback_def execute_and_record_def swapCallback_def isUniswapXTrade_def
          sample_env_def sample_trade_def empty_state_def truthy_string_def truthy_number_def
          addTransaction_def deadline_toNumber_def toNumber_def Let_def)
  then obtain t where t: "transactions ?st = [t]" "hash (tx_response t) = ''0xtx''" "tx_status t = Pending"
    by auto
  have a: "fst (useSwapTransactionStatus ?st (Some (ClassicSwapResult \<lparr>hash = ''0xtx''\<rparr> (Some 1700000000)))) = Some Pending"
    using useSwapTransactionStatus_lookup
            [of ?st "Some (ClassicSwapResult \<lparr>hash = ''0xtx''\<rparr> (Some 1700000000))" Pending] t
    by simp
  have b: "fst (useSwapTransactionStatus ?st (Some (ClassicSwapResult \<lparr>hash = ''0xother''\<rparr> None))) = None"
    using useSwapTransactionStatus_lookup
            [of ?st "Some (ClassicSwapResult \<lparr>hash = ''0xother''\<rparr> None)" Pending] t
    by simp
  have c: "fst (useSwapTransactionStatus ?sx (Some (UniswapXv2SwapResult
               \<lparr>orderHash = ''0xhash'', order_deadline = 1700000000, encodedOrder = ''0xorder''\<rparr>))) = None"
    using useSwapTransactionStatus_lookup
            [of ?sx "Some (UniswapXv2SwapResult
               \<lparr>orderHash = ''0xhash'', order_deadline = 1700000000, encodedOrder = ''0xorder''\<rparr>)" Pending]
    by simp
  from a b c show ?thesis by blast
qed

section \<open>The provider adapter\<close>

text \<open>
  Without a client there is no provider. With a client that carries its chain, the adapter
  returns the provider cached for the client's reference without calling the constructor;
  on a miss it calls the constructor and either caches and returns the new provider or
  hands on what the constructor throws, caching nothing. A second call with the same client
  returns the same instance and leaves the cache as it is, and two clients get two
  instances.
\<close>

lemma clientToProvider_no_client: "clientToProvider rejects h None chainId = (Inr None, h)"
  by (simp add: clientToProvider_def)

lemma clientToProvider_needs_client:
  "fst (clientToProvider rejects h cl chainId) = Inr (Some p) \<Longrightarrow> cl \<noteq> None"
  by (cases cl) (simp_all add: clientToProvider_no_client)

lemma clientToProvider_cached:
  "chain c = Some ch \<Longrightarrow> providers h (client_ref c) = Some q \<Longrightarrow>
     clientToProvider rejects h (Some c) chainId = (Inr (Some q), h)"
  by (simp add: clientToProvider_def ensAddress_of_def)

lemma clientToProvider_constructs:
  assumes "chain c = Some ch" and "providers h (client_ref c) = None"
    and "ensAddress_of (Some ch) = Inr ens"
    and "rejects (transport c)
           \<lparr>net_chainId = chain_id ch, net_name = chain_name ch, ensAddress = ens\<rparr> = None"
  shows "clientToProvider rejects h (Some c) chainId =
     (Inr (Some \<lparr>provider_ref = next_ref h, provider_transport = transport c,
                  provider_network =
                    \<lparr>net_chainId = chain_id ch, net_name = chain_name ch, ensAddress = ens\<rparr>\<rparr>),
      h\<lparr>providers := (providers h)(client_ref c \<mapsto>
            \<lparr>provider_ref = next_ref h, provider_transport = transport c,
             provider_network =
               \<lparr>net_chainId = chain_id ch, net_name = chain_name ch, ensAddress = ens\<rparr>\<rparr>),
        next_ref := Suc (next_ref h)\<rparr>)"
  using assms by (simp add: clientToProvider_def new_Web3Provider_def)

lemma clientToProvider_constructor_throws:
  assumes "chain c = Some ch" and "providers h (client_ref c) = None"
    and "ensAddress_of (Some ch) = Inr ens"
    and "rejects (transport c)
           \<lparr>net_chainId = chain_id ch, net_name = chain_name ch, ensAddress = ens\<rparr> = Some e"
  shows "clientToProvider rejects h (Some c) chainId = (Inl e, h)"
  using assms by (simp add: clientToProvider_def new_Web3Provider_def)

lemma clientToProvider_memo:
  "clientToProvider rejects h (Some c) n = (Inr (Some p), h') \<Longrightarrow>
     clientToProvider rejects' h' (Some c) m = (Inr (Some p), h')"
  by (auto simp add: clientToProvider_def ensAddress_of_def new_Web3Provider_def Let_def
      split: option.splits sum.splits if_splits)

lemma clientToProvider_fresh:
  "providers h (client_ref c) = None \<Longrightarrow> providers h (client_ref d) = None \<Longrightarrow>
   client_ref c \<noteq> client_ref d \<Longrightarrow>
   clientToProvider rejects h (Some c) n = (Inr (Some p), h') \<Longrightarrow>
   clientToProvider rejects h' (Some d) m = (Inr (Some q), h'') \<Longrightarrow> provider_ref p \<noteq> provider_ref q"
  by (auto simp add: clientToProvider_def ensAddress_of_def new_Web3Provider_def Let_def
      split: option.splits sum.splits if_splits)

text \<open>
  A chain record of id 5 that bears the name of another network: the constructor refuses
  it, and the adapter throws.
\<close>

lemma clientToProvider_known_name_other_id:
  "clientToProvider known_network_check empty_heap
     (Some \<lparr>client_ref = 7,
            chain = Some \<lparr>chain_id = 5, chain_name = ''homestead'', contracts = None,
                          rpcUrls = no_rpcUrls\<rparr>,
            transport = 3\<rparr>)
     (Some 5)
   = (Inl (Error ''network chainId mismatch''), empty_heap)"
  by (simp add: clientToProvider_def ensAddress_of_def new_Web3Provider_def
        known_network_check_def empty_heap_def)

text \<open>
  Claim C6. The claim asks that the adapter return the same instance for the same client,
  and an absent value whenever no network can be determined: without a client, or for a
  client without chain data when no fallback chain id is given. The first two parts are
  the lemmas above. For the third, the source reads \<^verbatim>\<open>chain.contracts\<close> before it tests
  \<^verbatim>\<open>chain\<close>: for every client whose chain is undefined, with or without a chain id, the
  call throws a \<^verbatim>\<open>TypeError\<close> and returns nothing, so the test for a missing chain and
  the fallback to \<^verbatim>\<open>chainId\<close> that the source and its documentation provide are never
  reached.
\<close>

theorem clientToProvider_missing_chain_throws:
  assumes "chain c = None"
  shows "clientToProvider rejects h (Some c) chainId
     = (Inl (TypeError ''Cannot read properties of undefined (reading contracts)''), h)"
  using assms by (simp add: clientToProvider_def ensAddress_of_def)

theorem clientToProvider_missing_chain_throws_witness:
  "clientToProvider known_network_check empty_heap
       (Some \<lparr>client_ref = 7, chain = None, transport = 3\<rparr>) None
     = (Inl (TypeError ''Cannot read properties of undefined (reading contracts)''), empty_heap)
   \<and> fst (clientToProvider known_network_check empty_heap
            (Some \<lparr>client_ref = 7, chain = None, transport = 3\<rparr>) None)
     \<noteq> Inr None"
  using clientToProvider_missing_chain_throws
          [of "\<lparr>client_ref = 7, chain = None, transport = 3\<rparr>" known_network_check empty_heap None]
  by simp

text \<open>
  The two hooks choose their client as the claim C9 describes: \<open>useEthersProvider\<close> adapts
  the disconnected client whenever the account's chain differs from the requested chain,
  and otherwise the connector client, falling back to the disconnected client when there is
  no connector client; \<open>useEthersWeb3Provider\<close> adapts the connector client, returns a
  provider only when there is one, and an absent value when there is none.
\<close>

lemma useEthersProvider_selects:
  "(account_chainId (hook_account w) \<noteq> chainId \<longrightarrow>
      useEthersProvider rejects h w chainId
        = clientToProvider rejects h (disconnectedClient w) chainId)
   \<and> (\<forall>c. account_chainId (hook_account w) = chainId \<and> connectorClient w = Some c \<longrightarrow>
      useEthersProvider rejects h w chainId = clientToProvider rejects h (Some c) chainId)
   \<and> (account_chainId (hook_account w) = chainId \<and> connectorClient w = None \<longrightarrow>
      useEthersProvider rejects h w chainId
        = clientToProvider rejects h (disconnectedClient w) chainId)
   \<and> (\<forall>p. fst (useEthersWeb3Provider rejects h w chainId) = Inr (Some p) \<longrightarrow>
      connectorClient w \<noteq> None)
   \<and> (connectorClient w = None \<longrightarrow> useEthersWeb3Provider rejects h w chainId = (Inr None, h))"
  by (auto simp add: useEthersProvider_def useEthersWeb3Provider_def selected_client_def
        clientToProvider_no_client dest: clientToProvider_needs_client)

lemma useEthersProvider_connected_sample:
  "fst (useEthersProvider known_network_check empty_heap
          \<lparr>hook_account = \<lparr>isConnected = True, address = Some ''0xabc'', account_chainId = Some 1\<rparr>,
           connectorClient = Some \<lparr>client_ref = 7, chain = Some mainnet, transport = 3\<rparr>,
           disconnectedClient = Some \<lparr>client_ref = 8, chain = Some mainnet, transport = 4\<rparr>\<rparr>
          (Some 1))
     = Inr (Some \<lparr>provider_ref = 0, provider_transport = 3,
                  provider_network = \<lparr>net_chainId = 1, net_name = ''Ethereum'',
                                       ensAddress = Some ''0xens''\<rparr>\<rparr>)"
  by (simp add: useEthersProvider_def selected_client_def clientToProvider_def ensAddress_of_def
        new_Web3Provider_def known_network_check_def empty_heap_def mainnet_def)

text \<open>
  Claim C9. The claim asks, with the source's documentation, that \<open>useEthersProvider\<close>
  always return a usable provider. The hook has no client to adapt when wagmi yields no
  disconnected client for the requested chain and either the account is on another chain
  (or on none) or there is no connector client: it then passes the absent client to the
  adapter and returns an absent value. So it does with no wallet connected and the chain
  999 requested, for which there is no client.
\<close>

theorem useEthersProvider_without_client:
  assumes "disconnectedClient w = None"
    and "account_chainId (hook_account w) \<noteq> chainId \<or> connectorClient w = None"
  shows "useEthersProvider rejects h w chainId = (Inr None, h)"
  using assms
  by (auto simp add: useEthersProvider_def selected_client_def clientToProvider_no_client)

theorem useEthersProvider_without_client_witness:
  "useEthersProvider known_network_check empty_heap
      \<lparr>hook_account = \<lparr>isConnected = False, address = None, account_chainId = None\<rparr>,
       connectorClient = None,
       disconnectedClient = None\<rparr>
      (Some 999)
     = (Inr None, empty_heap)
   \<and> \<not> (\<exists>p. fst (useEthersProvider known_network_check empty_heap
               \<lparr>hook_account = \<lparr>isConnected = False, address = None, account_chainId = None\<rparr>,
                connectorClient = None,
                disconnectedClient = None\<rparr>
               (Some 999)) = Inr (Some p))"
  using useEthersProvider_without_client
          [of "\<lparr>hook_account = \<lparr>isConnected = False, address = None, account_chainId = None\<rparr>,
                connectorClient = None,
                disconnectedClient = None\<rparr>" "Some 999" known_network_check empty_heap]
  by simp

section \<open>The swap callback\<close>

subsection \<open>The strategy call and the recording\<close>

lemma execute_and_record_error:
  "execute_and_record env t st = (Inl e, st') \<Longrightarrow> st' = st"
  by (auto simp add: execute_and_record_def Let_def split: sum.splits SwapResult.splits)

lemma execute_and_record_throws:
  "swapCallback env = Inl e \<Longrightarrow> execute_and_record env t st = (Inl e, st)"
  by (simp add: execute_and_record_def)


lemma deadline_toNumber_value: "deadline_toNumber deadline = Inr n \<Longrightarrow> n = deadline"
  by (auto simp add: deadline_toNumber_def toNumber_def split: option.splits if_splits)

lemma execute_and_record_classic:
  "swapCallback env = Inr (ClassicSwapResult response deadline) \<Longrightarrow>
   deadline_toNumber deadline = Inr n \<Longrightarrow>
   execute_and_record env t st =
     (Inr (ClassicSwapResult response deadline),
      addTransaction response (build_swapInfo env t (ClassicSwapResult response deadline)) deadline st)"
  using deadline_toNumber_value [of deadline n] by (simp add: execute_and_record_def)

lemma execute_and_record_classic_overflow:
  "swapCallback env = Inr (ClassicSwapResult response deadline) \<Longrightarrow>
   deadline_toNumber deadline = Inl e \<Longrightarrow>
   execute_and_record env t st = (Inl e, st)"
  by (simp add: execute_and_record_def)

lemma execute_and_record_uniswapx:
  "swapCallback env = Inr (UniswapXSwapResult response) \<Longrightarrow>
   execute_and_record env t st =
     (Inr (UniswapXSwapResult response),
      addOrder (order_details env t response (build_swapInfo env t (UniswapXSwapResult response))) st)"
  by (simp add: execute_and_record_def)

lemma execute_and_record_uniswapxv2:
  "swapCallback env = Inr (UniswapXv2SwapResult response) \<Longrightarrow>
   execute_and_record env t st =
     (Inr (UniswapXv2SwapResult response),
      addOrder (order_details env t response (build_swapInfo env t (UniswapXv2SwapResult response))) st)"
  by (simp add: execute_and_record_def)

lemma execute_and_record_returns:
  "execute_and_record env t st = (Inr result, st') \<Longrightarrow> swapCallback env = Inr result"
  by (cases "swapCallback env")
     (auto simp add: execute_and_record_def Let_def split: SwapResult.splits sum.splits)

subsection \<open>The validation, one lemma for each way out\<close>

lemma useSwapCallback_missing_trade:
  "trade env = None \<Longrightarrow> useSwapCallback env st = (Inl (Error ''missing trade''), st)"
  by (simp add: useSwapCallback_def)

lemma useSwapCallback_not_connected:
  "trade env = Some t \<Longrightarrow> \<not> isConnected (account env) \<or> \<not> truthy_string (address (account env)) \<Longrightarrow>
   useSwapCallback env st = (Inl (Error ''wallet must be connected to swap''), st)"
  by (auto simp add: useSwapCallback_def)

lemma useSwapCallback_missing_chain:
  "trade env = Some t \<Longrightarrow> isConnected (account env) \<Longrightarrow> truthy_string (address (account env)) \<Longrightarrow>
   \<not> truthy_number (swapChainId env) \<Longrightarrow>
   useSwapCallback env st = (Inl (Error ''missing swap chainId''), st)"
  by (simp add: useSwapCallback_def truthy_number_def split: option.splits)

lemma useSwapCallback_non_evm:
  "trade env = Some t \<Longrightarrow> isConnected (account env) \<Longrightarrow> truthy_string (address (account env)) \<Longrightarrow>
   swapChainId env = Some c \<Longrightarrow> c \<noteq> 0 \<Longrightarrow> \<not> isEVMChain env c \<Longrightarrow>
   useSwapCallback env st = (Inl (Error ''non EVM chain in legacy limits flow''), st)"
  by (simp add: useSwapCallback_def)

lemma useSwapCallback_switch_failed:
  "trade env = Some t \<Longrightarrow> isConnected (account env) \<Longrightarrow> truthy_string (address (account env)) \<Longrightarrow>
   swapChainId env = Some c \<Longrightarrow> c \<noteq> 0 \<Longrightarrow> isEVMChain env c \<Longrightarrow>
   supportedConnectedChainId env \<noteq> Some c \<Longrightarrow> \<not> selectChain env c \<Longrightarrow>
   useSwapCallback env st =
     (Inl (Error ''wallet must be connected to correct chain to swap''),
      st\<lparr>switchAttempts := switchAttempts st @ [c]\<rparr>)"
  by (simp add: useSwapCallback_def Let_def)

lemma useSwapCallback_switched:
  "trade env = Some t \<Longrightarrow> isConnected (account env) \<Longrightarrow> truthy_string (address (account env)) \<Longrightarrow>
   swapChainId env = Some c \<Longrightarrow> c \<noteq> 0 \<Longrightarrow> isEVMChain env c \<Longrightarrow>
   supportedConnectedChainId env \<noteq> Some c \<Longrightarrow> selectChain env c \<Longrightarrow>
   useSwapCallback env st =
     execute_and_record env t (st\<lparr>switchAttempts := switchAttempts st @ [c]\<rparr>)"
  by (simp add: useSwapCallback_def Let_def)

lemma useSwapCallback_same_chain:
  "trade env = Some t \<Longrightarrow> isConnected (account env) \<Longrightarrow> truthy_string (address (account env)) \<Longrightarrow>
   swapChainId env = Some c \<Longrightarrow> c \<noteq> 0 \<Longrightarrow> isEVMChain env c \<Longrightarrow>
   supportedConnectedChainId env = Some c \<Longrightarrow>
   useSwapCallback env st = execute_and_record env t st"
  by (simp add: useSwapCallback_def truthy_number_def)


text \<open>Every call of the callback takes exactly one of seven paths.\<close>

lemma useSwapCallback_paths:
  obtains
    (missing_trade) "trade env = None"
      "useSwapCallback env st = (Inl (Error ''missing trade''), st)"
  | (not_connected) t where "trade env = Some t"
      "\<not> isConnected (account env) \<or> \<not> truthy_string (address (account env))"
      "useSwapCallback env st = (Inl (Error ''wallet must be connected to swap''), st)"
  | (missing_chain) t where "trade env = Some t"
      "isConnected (account env)" "truthy_string (address (account env))"
      "\<not> truthy_number (swapChainId env)"
      "useSwapCallback env st = (Inl (Error ''missing swap chainId''), st)"
  | (non_evm) t c where "trade env = Some t"
      "isConnected (account env)" "truthy_string (address (account env))"
      "swapChainId env = Some c" "c \<noteq> 0" "\<not> isEVMChain env c"
      "useSwapCallback env st = (Inl (Error ''non EVM chain in legacy limits flow''), st)"
  | (switch_failed) t c where "trade env = Some t"
      "isConnected (account env)" "truthy_string (address (account env))"
      "swapChainId env = Some c" "c \<noteq> 0" "isEVMChain env c"
      "supportedConnectedChainId env \<noteq> Some c" "\<not> selectChain env c"
      "useSwapCallback env st =
         (Inl (Error ''wallet must be connected to correct chain to swap''),
          st\<lparr>switchAttempts := switchAttempts st @ [c]\<rparr>)"
  | (switched) t c where "trade env = Some t"
      "isConnected (account env)" "truthy_string (address (account env))"
      "swapChainId env = Some c" "c \<noteq> 0" "isEVMChain env c"
      "supportedConnectedChainId env \<noteq> Some c" "selectChain env c"
      "useSwapCallback env st =
         execute_and_record env t (st\<lparr>switchAttempts := switchAttempts st @ [c]\<rparr>)"
  | (same_chain) t c where "trade env = Some t"
      "isConnected (account env)" "truthy_string (address (account env))"
      "swapChainId env = Some c" "c \<noteq> 0" "isEVMChain env c"
      "supportedConnectedChainId env = Some c"
      "useSwapCallback env st = execute_and_record env t st"
proof (cases "trade env")
  case None
  then show ?thesis using missing_trade useSwapCallback_missing_trade by blast
next
  case (Some t)
  note tr = Some
  show ?thesis
  proof (cases "isConnected (account env) \<and> truthy_string (address (account env))")
    case False
    then show ?thesis using not_connected [OF tr] useSwapCallback_not_connected [OF tr] by blast
  next
    case True
    then have conn: "isConnected (account env)" "truthy_string (address (account env))" by simp_all
    show ?thesis
    proof (cases "truthy_number (swapChainId env)")
      case False
      then show ?thesis
        using missing_chain [OF tr conn] useSwapCallback_missing_chain [OF tr conn] by blast
    next
      case True
      then obtain c where c: "swapChainId env = Some c" "c \<noteq> 0"
        by (auto simp add: truthy_number_def split: option.splits)
      show ?thesis
      proof (cases "isEVMChain env c")
        case False
        then show ?thesis
          using non_evm [OF tr conn c] useSwapCallback_non_evm [OF tr conn c] by blast
      next
        case True
        note evm = True
        show ?thesis
        proof (cases "supportedConnectedChainId env = Some c")
          case True
          then show ?thesis
            using same_chain [OF tr conn c evm] useSwapCallback_same_chain [OF tr conn c evm] by blast
        next
          case False
          note other = False
          show ?thesis
          proof (cases "selectChain env c")
            case True
            then show ?thesis
              using switched [OF tr conn c evm other]
                    useSwapCallback_switched [OF tr conn c evm other] by blast
          next
            case False
            then show ?thesis
              using switch_failed [OF tr conn c evm other]
                    useSwapCallback_switch_failed [OF tr conn c evm other] by blast
          qed
        qed
      qed
    qed
  qed
qed

lemma execute_and_record_stores_on_error:
  "fst (execute_and_record env t st) = Inl e \<Longrightarrow> snd (execute_and_record env t st) = st"
  using execute_and_record_error [of env t st e "snd (execute_and_record env t st)"]
  by (metis prod.collapse)

lemma useSwapCallback_error_keeps_stores:
  assumes "fst (useSwapCallback env st) = Inl e"
  shows "orders (snd (useSwapCallback env st)) = orders st
       \<and> transactions (snd (useSwapCallback env st)) = transactions st"
proof (cases rule: useSwapCallback_paths [of env st])
  case (switched t c)
  then show ?thesis using assms execute_and_record_stores_on_error [of env t _ e] by simp
next
  case (same_chain t c)
  then show ?thesis using assms execute_and_record_stores_on_error [of env t _ e] by simp
qed simp_all

lemma execute_and_record_switchAttempts:
  "switchAttempts (snd (execute_and_record env t st)) = switchAttempts st"
  by (simp add: execute_and_record_def Let_def addOrder_def addTransaction_def
      split: sum.splits SwapResult.splits)

lemma useSwapCallback_one_switch:
  "switchAttempts (snd (useSwapCallback env st)) = switchAttempts st
   \<or> (\<exists>c. swapChainId env = Some c
          \<and> switchAttempts (snd (useSwapCallback env st)) = switchAttempts st @ [c])"
proof (cases rule: useSwapCallback_paths [of env st])
  case (switched t c)
  then show ?thesis by (simp add: execute_and_record_switchAttempts)
next
  case (same_chain t c)
  then show ?thesis by (simp add: execute_and_record_switchAttempts)
qed simp_all

text \<open>
  Claim C1. The callback validates fail-fast in a fixed order: a missing trade, a wallet
  that is not connected or has no address, a missing target chain, a target chain that is
  not an EVM chain, and a wallet on another chain that a single \<open>selectChain\<close> call does not
  bring to the target chain. Each of the five stops the call with an error of its own, the
  five errors are distinct, and a strategy that throws after a passed validation hands its
  error to the caller unchanged. In every call that ends with an error the order store and
  the transaction store are what they were, and no call asks for more than one chain
  switch.
\<close>

theorem useSwapCallback_validation_errors:
  "(trade env = None \<longrightarrow>
      useSwapCallback env st = (Inl (Error ''missing trade''), st))
   \<and> (trade env \<noteq> None
        \<and> (\<not> isConnected (account env) \<or> \<not> truthy_string (address (account env))) \<longrightarrow>
      useSwapCallback env st = (Inl (Error ''wallet must be connected to swap''), st))
   \<and> (trade env \<noteq> None \<and> isConnected (account env) \<and> truthy_string (address (account env))
        \<and> \<not> truthy_number (swapChainId env) \<longrightarrow>
      useSwapCallback env st = (Inl (Error ''missing swap chainId''), st))
   \<and> (\<forall>c. trade env \<noteq> None \<and> isConnected (account env) \<and> truthy_string (address (account env))
        \<and> swapChainId env = Some c \<and> c \<noteq> 0 \<and> \<not> isEVMChain env c \<longrightarrow>
      useSwapCallback env st = (Inl (Error ''non EVM chain in legacy limits flow''), st))
   \<and> (\<forall>c. trade env \<noteq> None \<and> isConnected (account env) \<and> truthy_string (address (account env))
        \<and> swapChainId env = Some c \<and> c \<noteq> 0 \<and> isEVMChain env c
        \<and> supportedConnectedChainId env \<noteq> Some c \<and> \<not> selectChain env c \<longrightarrow>
      useSwapCallback env st =
        (Inl (Error ''wallet must be connected to correct chain to swap''),
         st\<lparr>switchAttempts := switchAttempts st @ [c]\<rparr>))
   \<and> (\<forall>c e. trade env \<noteq> None \<and> isConnected (account env) \<and> truthy_string (address (account env))
        \<and> swapChainId env = Some c \<and> c \<noteq> 0 \<and> isEVMChain env c
        \<and> (supportedConnectedChainId env = Some c \<or> selectChain env c)
        \<and> swapCallback env = Inl e \<longrightarrow>
      fst (useSwapCallback env st) = Inl e)
   \<and> (\<forall>e. fst (useSwapCallback env st) = Inl e \<longrightarrow>
        orders (snd (useSwapCallback env st)) = orders st
        \<and> transactions (snd (useSwapCallback env st)) = transactions st)
   \<and> distinct [Error ''missing trade'', Error ''wallet must be connected to swap'',
               Error ''missing swap chainId'', Error ''non EVM chain in legacy limits flow'',
               Error ''wallet must be connected to correct chain to swap'']
   \<and> (switchAttempts (snd (useSwapCallback env st)) = switchAttempts st
        \<or> (\<exists>c. swapChainId env = Some c
               \<and> switchAttempts (snd (useSwapCallback env st)) = switchAttempts st @ [c]))"
proof (intro conjI allI impI)
  show "useSwapCallback env st = (Inl (Error ''missing trade''), st)" if "trade env = None"
    using that by (rule useSwapCallback_missing_trade)
  show "useSwapCallback env st = (Inl (Error ''wallet must be connected to swap''), st)"
    if "trade env \<noteq> None
        \<and> (\<not> isConnected (account env) \<or> \<not> truthy_string (address (account env)))"
    using that useSwapCallback_not_connected [of env _ st] by blast
  show "useSwapCallback env st = (Inl (Error ''missing swap chainId''), st)"
    if "trade env \<noteq> None \<and> isConnected (account env) \<and> truthy_string (address (account env))
        \<and> \<not> truthy_number (swapChainId env)"
    using that useSwapCallback_missing_chain [of env _ st] by blast
  show "useSwapCallback env st = (Inl (Error ''non EVM chain in legacy limits flow''), st)"
    if "trade env \<noteq> None \<and> isConnected (account env) \<and> truthy_string (address (account env))
        \<and> swapChainId env = Some c \<and> c \<noteq> 0 \<and> \<not> isEVMChain env c" for c
    using that useSwapCallback_non_evm [of env _ c st] by blast
  show "useSwapCallback env st =
        (Inl (Error ''wallet must be connected to correct chain to swap''),
         st\<lparr>switchAttempts := switchAttempts st @ [c]\<rparr>)"
    if "trade env \<noteq> None \<and> isConnected (account env) \<and> truthy_string (address (account env))
        \<and> swapChainId env = Some c \<and> c \<noteq> 0 \<and> isEVMChain env c
        \<and> supportedConnectedChainId env \<noteq> Some c \<and> \<not> selectChain env c" for c
    using that useSwapCallback_switch_failed [of env _ c st] by blast
  show "fst (useSwapCallback env st) = Inl e"
    if h: "trade env \<noteq> None \<and> isConnected (account env) \<and> truthy_string (address (account env))
        \<and> swapChainId env = Some c \<and> c \<noteq> 0 \<and> isEVMChain env c
        \<and> (supportedConnectedChainId env = Some c \<or> selectChain env c)
        \<and> swapCallback env = Inl e" for c e
  proof -
    from h obtain t where t: "trade env = Some t" by blast
    show ?thesis
    proof (cases "supportedConnectedChainId env = Some c")
      case True
      with h t show ?thesis
        by (simp add: useSwapCallback_same_chain [of env t c st] execute_and_record_throws)
    next
      case False
      with h t show ?thesis
        by (simp add: useSwapCallback_switched [of env t c st] execute_and_record_throws)
    qed
  qed
  show "orders (snd (useSwapCallback env st)) = orders st"
    if "fst (useSwapCallback env st) = Inl e" for e
    using that useSwapCallback_error_keeps_stores by blast
  show "transactions (snd (useSwapCallback env st)) = transactions st"
    if "fst (useSwapCallback env st) = Inl e" for e
    using that useSwapCallback_error_keeps_stores by blast
  show "distinct [Error ''missing trade'', Error ''wallet must be connected to swap'',
               Error ''missing swap chainId'', Error ''non EVM chain in legacy limits flow'',
               Error ''wallet must be connected to correct chain to swap'']"
    by simp
  show "switchAttempts (snd (useSwapCallback env st)) = switchAttempts st
        \<or> (\<exists>c. swapChainId env = Some c
               \<and> switchAttempts (snd (useSwapCallback env st)) = switchAttempts st @ [c])"
    by (rule useSwapCallback_one_switch)
qed


theorem useSwapCallback_validation_errors_witness:
  "useSwapCallback
     ((sample_env (Some (sample_trade UniswapX EXACT_INPUT)) None)
        \<lparr>account := \<lparr>isConnected = False, address = None, account_chainId = None\<rparr>\<rparr>)
     empty_state
     = (Inl (Error ''wallet must be connected to swap''), empty_state)
   \<and> useSwapCallback (sample_env None (Some 130)) empty_state
     = (Inl (Error ''missing trade''), empty_state)
   \<and> useSwapCallback
     ((sample_env (Some (sample_trade Classic EXACT_INPUT)) (Some 1)) \<lparr>selectChain := (\<lambda>c. False)\<rparr>)
     empty_state
     = (Inl (Error ''wallet must be connected to correct chain to swap''),
        empty_state\<lparr>switchAttempts := [130]\<rparr>)
   \<and> fst (useSwapCallback
     ((sample_env (Some (sample_trade Classic EXACT_INPUT)) (Some 130))
        \<lparr>universalRouterSwapCallback := Inl (Error ''user rejected'')\<rparr>)
     empty_state)
     = Inl (Error ''user rejected'')"
proof -
  let ?e1 = "(sample_env (Some (sample_trade UniswapX EXACT_INPUT)) None)
        \<lparr>account := \<lparr>isConnected = False, address = None, account_chainId = None\<rparr>\<rparr>"
  let ?e2 = "sample_env None (Some 130)"
  let ?e3 = "(sample_env (Some (sample_trade Classic EXACT_INPUT)) (Some 1)) \<lparr>selectChain := (\<lambda>c. False)\<rparr>"
  let ?e4 = "(sample_env (Some (sample_trade Classic EXACT_INPUT)) (Some 130))
        \<lparr>universalRouterSwapCallback := Inl (Error ''user rejected'')\<rparr>"
  have a: "useSwapCallback ?e1 empty_state = (Inl (Error ''wallet must be connected to swap''), empty_state)"
    using useSwapCallback_validation_errors [of ?e1 empty_state]
    by (simp add: sample_env_def)
  have b: "useSwapCallback ?e2 empty_state = (Inl (Error ''missing trade''), empty_state)"
    using useSwapCallback_validation_errors [of ?e2 empty_state]
    by (simp add: sample_env_def)
  have c: "useSwapCallback ?e3 empty_state
     = (Inl (Error ''wallet must be connected to correct chain to swap''),
        empty_state\<lparr>switchAttempts := [130]\<rparr>)"
    using useSwapCallback_validation_errors [of ?e3 empty_state]
    by (simp add: sample_env_def truthy_string_def empty_state_def)
  have d: "fst (useSwapCallback ?e4 empty_state) = Inl (Error ''user rejected'')"
    using useSwapCallback_validation_errors [of ?e4 empty_state]
    by (simp add: sample_env_def truthy_string_def swapCallback_def isUniswapXTrade_def sample_trade_def)
  from a b c d show ?thesis by blast
qed

subsection \<open>Successful calls\<close>

text \<open>A call that returns has passed the validation and recorded the strategy's result.\<close>

lemma useSwapCallback_returns:
  assumes "useSwapCallback env st = (Inr result, st')"
  obtains t st1 where "trade env = Some t"
    "isConnected (account env)" "truthy_string (address (account env))"
    "execute_and_record env t st1 = (Inr result, st')"
    "orders st1 = orders st" "transactions st1 = transactions st"
proof (cases rule: useSwapCallback_paths [of env st])
  case (switched t c)
  then show ?thesis
    using assms that [of t "st\<lparr>switchAttempts := switchAttempts st @ [c]\<rparr>"] by simp
next
  case (same_chain t c)
  then show ?thesis using assms that [of t st] by simp
qed (use assms in simp_all)

lemma execute_and_record_appends:
  assumes "execute_and_record env t st = (Inr result, st')"
  shows "swapCallback env = Inr result"
    and "result_type result = UniswapX \<or> result_type result = UniswapXv2 \<Longrightarrow>
           \<exists>response. (result = UniswapXSwapResult response \<or> result = UniswapXv2SwapResult response)
             \<and> orders st' = orders st @ [order_details env t response (build_swapInfo env t result)]
             \<and> transactions st' = transactions st"
    and "result_type result \<noteq> UniswapX \<and> result_type result \<noteq> UniswapXv2 \<Longrightarrow>
           \<exists>response deadline. result = ClassicSwapResult response deadline
             \<and> transactions st' = transactions st @
                  [\<lparr>tx_response = response, tx_info = build_swapInfo env t result,
                    tx_deadline = deadline, tx_status = Pending\<rparr>]
             \<and> orders st' = orders st"
proof -
  show r: "swapCallback env = Inr result"
    using assms by (rule execute_and_record_returns)
  show "\<exists>response. (result = UniswapXSwapResult response \<or> result = UniswapXv2SwapResult response)
             \<and> orders st' = orders st @ [order_details env t response (build_swapInfo env t result)]
             \<and> transactions st' = transactions st"
    if "result_type result = UniswapX \<or> result_type result = UniswapXv2"
  proof (cases result)
    case (ClassicSwapResult response deadline)
    with that show ?thesis by simp
  next
    case (UniswapXSwapResult response)
    with r assms show ?thesis
      by (auto simp add: execute_and_record_uniswapx addOrder_def)
  next
    case (UniswapXv2SwapResult response)
    with r assms show ?thesis
      by (auto simp add: execute_and_record_uniswapxv2 addOrder_def)
  qed
  show "\<exists>response deadline. result = ClassicSwapResult response deadline
             \<and> transactions st' = transactions st @
                  [\<lparr>tx_response = response, tx_info = build_swapInfo env t result,
                    tx_deadline = deadline, tx_status = Pending\<rparr>]
             \<and> orders st' = orders st"
    if "result_type result \<noteq> UniswapX \<and> result_type result \<noteq> UniswapXv2"
  proof (cases result)
    case (ClassicSwapResult response deadline)
    with r assms show ?thesis
      by (auto simp add: execute_and_record_def addTransaction_def
          split: sum.splits dest: deadline_toNumber_value)
  next
    case (UniswapXSwapResult response)
    with that show ?thesis by simp
  next
    case (UniswapXv2SwapResult response)
    with that show ?thesis by simp
  qed
qed

lemma sample_classic_run:
  "useSwapCallback (sample_env (Some (sample_trade Classic EXACT_INPUT)) (Some 130)) empty_state
     = (Inr (ClassicSwapResult \<lparr>hash = ''0xtx''\<rparr> (Some 1700000000)),
        snd (useSwapCallback (sample_env (Some (sample_trade Classic EXACT_INPUT)) (Some 130)) empty_state))"
  by (simp add: useSwapCallback_def execute_and_record_def swapCallback_def isUniswapXTrade_def
        sample_env_def sample_trade_def truthy_string_def truthy_number_def Let_def
        deadline_toNumber_def toNumber_def)

lemma sample_uniswapx_run:
  "useSwapCallback (sample_env (Some (sample_trade UniswapXv2 EXACT_OUTPUT)) (Some 130)) empty_state
     = (Inr (UniswapXv2SwapResult
               \<lparr>orderHash = ''0xhash'', order_deadline = 1700000000, encodedOrder = ''0xorder''\<rparr>),
        snd (useSwapCallback (sample_env (Some (sample_trade UniswapXv2 EXACT_OUTPUT)) (Some 130)) empty_state))"
  by (simp add: useSwapCallback_def execute_and_record_def swapCallback_def isUniswapXTrade_def
        sample_env_def sample_trade_def truthy_string_def truthy_number_def Let_def
        deadline_toNumber_def toNumber_def)

text \<open>
  Claim C2. A call of the callback that returns a result returns what the strategy settled
  to, unchanged, and appends exactly one record to exactly one store: to the order store,
  and nothing to the transaction store, when the result is tagged UniswapX or UniswapXv2;
  to the transaction store, and nothing to the order store, for any other result.
\<close>

theorem useSwapCallback_records_once:
  assumes "useSwapCallback env st = (Inr result, st')"
  shows "swapCallback env = Inr result
       \<and> (result_type result = UniswapX \<or> result_type result = UniswapXv2 \<longrightarrow>
            (\<exists>r. orders st' = orders st @ [r]) \<and> transactions st' = transactions st)
       \<and> (result_type result \<noteq> UniswapX \<and> result_type result \<noteq> UniswapXv2 \<longrightarrow>
            (\<exists>d. transactions st' = transactions st @ [d]) \<and> orders st' = orders st)
       \<and> length (orders st') + length (transactions st')
            = Suc (length (orders st) + length (transactions st))"
proof -
  from assms obtain t st1 where e: "execute_and_record env t st1 = (Inr result, st')"
    and o: "orders st1 = orders st" and x: "transactions st1 = transactions st"
    by (rule useSwapCallback_returns)
  note a = execute_and_record_appends [OF e]
  have 1: "swapCallback env = Inr result" by (rule a(1))
  have 2: "(\<exists>r. orders st' = orders st @ [r]) \<and> transactions st' = transactions st"
    if "result_type result = UniswapX \<or> result_type result = UniswapXv2"
    using a(2) [OF that] o x by auto
  have 3: "(\<exists>d. transactions st' = transactions st @ [d]) \<and> orders st' = orders st"
    if "result_type result \<noteq> UniswapX \<and> result_type result \<noteq> UniswapXv2"
    using a(3) [OF that] o x by auto
  have 4: "length (orders st') + length (transactions st')
            = Suc (length (orders st) + length (transactions st))"
  proof (cases "result_type result = UniswapX \<or> result_type result = UniswapXv2")
    case True
    from 2 [OF True] show ?thesis by auto
  next
    case False
    then have "result_type result \<noteq> UniswapX \<and> result_type result \<noteq> UniswapXv2" by simp
    from 3 [OF this] show ?thesis by auto
  qed
  from 1 2 3 4 show ?thesis by blast
qed

theorem useSwapCallback_records_once_witness:
  "length (transactions
      (snd (useSwapCallback (sample_env (Some (sample_trade Classic EXACT_INPUT)) (Some 130)) empty_state))) = 1
   \<and> orders
      (snd (useSwapCallback (sample_env (Some (sample_trade Classic EXACT_INPUT)) (Some 130)) empty_state)) = []
   \<and> length (orders
      (snd (useSwapCallback (sample_env (Some (sample_trade UniswapXv2 EXACT_OUTPUT)) (Some 130)) empty_state))) = 1
   \<and> transactions
      (snd (useSwapCallback (sample_env (Some (sample_trade UniswapXv2 EXACT_OUTPUT)) (Some 130)) empty_state)) = []"
  using useSwapCallback_records_once [OF sample_classic_run]
        useSwapCallback_records_once [OF sample_uniswapx_run]
  by (auto simp add: empty_state_def)

lemma build_swapInfo_exact_input:
  "tradeType t = EXACT_INPUT \<Longrightarrow>
     build_swapInfo env t result =
       \<lparr>info_type = Swap,
        inputCurrencyId = currencyId env (currency (inputAmount t)),
        outputCurrencyId = currencyId env (currency (outputAmount t)),
        isUniswapXOrder = (result_type result = UniswapX \<or> result_type result = UniswapXv2),
        info_tradeType = EXACT_INPUT,
        inputCurrencyAmountRaw = Some (toString_int (quotient_raw (inputAmount t))),
        expectedOutputCurrencyAmountRaw = Some (toString_int (quotient_raw (outputAmount t))),
        minimumOutputCurrencyAmountRaw =
          Some (toString_int (quotient_raw (minimumAmountOut t (allowedSlippage env)))),
        maximumInputCurrencyAmountRaw = None,
        outputCurrencyAmountRaw = None,
        expectedInputCurrencyAmountRaw = None\<rparr>"
  by (simp add: build_swapInfo_def)

lemma build_swapInfo_exact_output:
  "tradeType t = EXACT_OUTPUT \<Longrightarrow>
     build_swapInfo env t result =
       \<lparr>info_type = Swap,
        inputCurrencyId = currencyId env (currency (inputAmount t)),
        outputCurrencyId = currencyId env (currency (outputAmount t)),
        isUniswapXOrder = (result_type result = UniswapX \<or> result_type result = UniswapXv2),
        info_tradeType = EXACT_OUTPUT,
        inputCurrencyAmountRaw = None,
        expectedOutputCurrencyAmountRaw = None,
        minimumOutputCurrencyAmountRaw = None,
        maximumInputCurrencyAmountRaw =
          Some (toString_int (quotient_raw (maximumAmountIn t (allowedSlippage env)))),
        outputCurrencyAmountRaw = Some (toString_int (quotient_raw (outputAmount t))),
        expectedInputCurrencyAmountRaw = Some (toString_int (quotient_raw (inputAmount t)))\<rparr>"
  by (simp add: build_swapInfo_def)

lemma useSwapCallback_recorded_info:
  assumes "useSwapCallback env st = (Inr result, st')" and "trade env = Some t"
  shows "(\<exists>r. orders st' = orders st @ [r] \<and> swapInfo r = build_swapInfo env t result)
       \<or> (\<exists>d. transactions st' = transactions st @ [d] \<and> tx_info d = build_swapInfo env t result)"
proof -
  from assms(1) obtain t' st1 where t': "trade env = Some t'"
    and e: "execute_and_record env t' st1 = (Inr result, st')"
    and o: "orders st1 = orders st" and x: "transactions st1 = transactions st"
    by (rule useSwapCallback_returns)
  from t' assms(2) have tt: "t' = t" by simp
  note a = execute_and_record_appends [OF e [unfolded tt]]
  show ?thesis
  proof (cases "result_type result = UniswapX \<or> result_type result = UniswapXv2")
    case True
    from a(2) [OF True] o show ?thesis by (auto simp add: order_details_def)
  next
    case False
    then have "result_type result \<noteq> UniswapX \<and> result_type result \<noteq> UniswapXv2" by simp
    from a(3) [OF this] x show ?thesis by auto
  qed
qed

lemma toString_int_samples:
  "toString_int 1000 = ''1000''" "toString_int 5 = ''5''" "toString_int 4 = ''4''"
  "toString_int 1010 = ''1010''"
  by (simp_all add: toString_int_def toString_nat.simps digit_char_def)

text \<open>
  Claim C3. In a call that returns, the \<open>TransactionInfo\<close> of the appended record has, for an
  exact-input trade, exactly the amount fields input amount, expected output amount and
  minimum output amount, the last computed by the trade from the slippage tolerance; for an
  exact-output trade exactly maximum input amount, computed from the slippage tolerance,
  output amount and expected input amount. One of the two field sets is always absent as a
  whole.
\<close>

theorem useSwapCallback_info_fields:
  assumes "useSwapCallback env st = (Inr result, st')" and "trade env = Some t"
  shows "\<exists>info.
      ((\<exists>r. orders st' = orders st @ [r] \<and> swapInfo r = info)
       \<or> (\<exists>d. transactions st' = transactions st @ [d] \<and> tx_info d = info))
    \<and> (tradeType t = EXACT_INPUT \<longrightarrow>
         info_tradeType info = EXACT_INPUT
         \<and> inputCurrencyAmountRaw info = Some (toString_int (quotient_raw (inputAmount t)))
         \<and> expectedOutputCurrencyAmountRaw info = Some (toString_int (quotient_raw (outputAmount t)))
         \<and> minimumOutputCurrencyAmountRaw info =
             Some (toString_int (quotient_raw (minimumAmountOut t (allowedSlippage env))))
         \<and> maximumInputCurrencyAmountRaw info = None
         \<and> outputCurrencyAmountRaw info = None
         \<and> expectedInputCurrencyAmountRaw info = None)
    \<and> (tradeType t = EXACT_OUTPUT \<longrightarrow>
         info_tradeType info = EXACT_OUTPUT
         \<and> maximumInputCurrencyAmountRaw info =
             Some (toString_int (quotient_raw (maximumAmountIn t (allowedSlippage env))))
         \<and> outputCurrencyAmountRaw info = Some (toString_int (quotient_raw (outputAmount t)))
         \<and> expectedInputCurrencyAmountRaw info = Some (toString_int (quotient_raw (inputAmount t)))
         \<and> inputCurrencyAmountRaw info = None
         \<and> expectedOutputCurrencyAmountRaw info = None
         \<and> minimumOutputCurrencyAmountRaw info = None)
    \<and> ((inputCurrencyAmountRaw info = None \<and> expectedOutputCurrencyAmountRaw info = None
          \<and> minimumOutputCurrencyAmountRaw info = None)
        \<or> (maximumInputCurrencyAmountRaw info = None \<and> outputCurrencyAmountRaw info = None
          \<and> expectedInputCurrencyAmountRaw info = None))"
proof (cases "tradeType t")
  case EXACT_INPUT
  show ?thesis
    using useSwapCallback_recorded_info [OF assms]
    by (intro exI [of _ "build_swapInfo env t result"])
       (simp add: build_swapInfo_exact_input [OF EXACT_INPUT] EXACT_INPUT)
next
  case EXACT_OUTPUT
  show ?thesis
    using useSwapCallback_recorded_info [OF assms]
    by (intro exI [of _ "build_swapInfo env t result"])
       (simp add: build_swapInfo_exact_output [OF EXACT_OUTPUT] EXACT_OUTPUT)
qed

theorem useSwapCallback_info_fields_witness:
  "(\<exists>info.
      ((\<exists>r. orders (snd (useSwapCallback (sample_env (Some (sample_trade Classic EXACT_INPUT)) (Some 130)) empty_state))
               = [r] \<and> swapInfo r = info)
       \<or> (\<exists>d. transactions (snd (useSwapCallback (sample_env (Some (sample_trade Classic EXACT_INPUT)) (Some 130)) empty_state))
               = [d] \<and> tx_info d = info))
      \<and> inputCurrencyAmountRaw info = Some ''1000''
      \<and> expectedOutputCurrencyAmountRaw info = Some ''5''
      \<and> minimumOutputCurrencyAmountRaw info = Some ''4''
      \<and> maximumInputCurrencyAmountRaw info = None
      \<and> outputCurrencyAmountRaw info = None
      \<and> expectedInputCurrencyAmountRaw info = None)
   \<and> (\<exists>info.
      ((\<exists>r. orders (snd (useSwapCallback (sample_env (Some (sample_trade UniswapXv2 EXACT_OUTPUT)) (Some 130)) empty_state))
               = [r] \<and> swapInfo r = info)
       \<or> (\<exists>d. transactions (snd (useSwapCallback (sample_env (Some (sample_trade UniswapXv2 EXACT_OUTPUT)) (Some 130)) empty_state))
               = [d] \<and> tx_info d = info))
      \<and> maximumInputCurrencyAmountRaw info = Some ''1010''
      \<and> outputCurrencyAmountRaw info = Some ''5''
      \<and> expectedInputCurrencyAmountRaw info = Some ''1000''
      \<and> inputCurrencyAmountRaw info = None
      \<and> expectedOutputCurrencyAmountRaw info = None
      \<and> minimumOutputCurrencyAmountRaw info = None)"
proof -
  have t1: "trade (sample_env (Some (sample_trade Classic EXACT_INPUT)) (Some 130))
              = Some (sample_trade Classic EXACT_INPUT)"
    by (simp add: sample_env_def)
  have t2: "trade (sample_env (Some (sample_trade UniswapXv2 EXACT_OUTPUT)) (Some 130))
              = Some (sample_trade UniswapXv2 EXACT_OUTPUT)"
    by (simp add: sample_env_def)
  have a1: "tradeType (sample_trade Classic EXACT_INPUT) = EXACT_INPUT"
    and a2: "tradeType (sample_trade UniswapXv2 EXACT_OUTPUT) = EXACT_OUTPUT"
    by (simp_all add: sample_trade_def)
  have v1: "toString_int (quotient_raw (inputAmount (sample_trade Classic EXACT_INPUT))) = ''1000''"
       "toString_int (quotient_raw (outputAmount (sample_trade Classic EXACT_INPUT))) = ''5''"
       "toString_int (quotient_raw (minimumAmountOut (sample_trade Classic EXACT_INPUT)
          (allowedSlippage (sample_env (Some (sample_trade Classic EXACT_INPUT)) (Some 130))))) = ''4''"
    by (simp_all add: sample_trade_def sample_env_def toString_int_samples)
  have v2: "toString_int (quotient_raw (inputAmount (sample_trade UniswapXv2 EXACT_OUTPUT))) = ''1000''"
       "toString_int (quotient_raw (outputAmount (sample_trade UniswapXv2 EXACT_OUTPUT))) = ''5''"
       "toString_int (quotient_raw (maximumAmountIn (sample_trade UniswapXv2 EXACT_OUTPUT)
          (allowedSlippage (sample_env (Some (sample_trade UniswapXv2 EXACT_OUTPUT)) (Some 130))))) = ''1010''"
    by (simp_all add: sample_trade_def sample_env_def toString_int_samples)
  have e: "orders empty_state = []" "transactions empty_state = []"
    by (simp_all add: empty_state_def)
  from useSwapCallback_info_fields [OF sample_classic_run t1]
  have p1: "\<exists>info.
      ((\<exists>r. orders (snd (useSwapCallback (sample_env (Some (sample_trade Classic EXACT_INPUT)) (Some 130)) empty_state))
               = [r] \<and> swapInfo r = info)
       \<or> (\<exists>d. transactions (snd (useSwapCallback (sample_env (Some (sample_trade Classic EXACT_INPUT)) (Some 130)) empty_state))
               = [d] \<and> tx_info d = info))
      \<and> inputCurrencyAmountRaw info = Some ''1000''
      \<and> expectedOutputCurrencyAmountRaw info = Some ''5''
      \<and> minimumOutputCurrencyAmountRaw info = Some ''4''
      \<and> maximumInputCurrencyAmountRaw info = None
      \<and> outputCurrencyAmountRaw info = None
      \<and> expectedInputCurrencyAmountRaw info = None"
    unfolding a1 v1 e by auto
  from useSwapCallback_info_fields [OF sample_uniswapx_run t2]
  have p2: "\<exists>info.
      ((\<exists>r. orders (snd (useSwapCallback (sample_env (Some (sample_trade UniswapXv2 EXACT_OUTPUT)) (Some 130)) empty_state))
               = [r] \<and> swapInfo r = info)
       \<or> (\<exists>d. transactions (snd (useSwapCallback (sample_env (Some (sample_trade UniswapXv2 EXACT_OUTPUT)) (Some 130)) empty_state))
               = [d] \<and> tx_info d = info))
      \<and> maximumInputCurrencyAmountRaw info = Some ''1010''
      \<and> outputCurrencyAmountRaw info = Some ''5''
      \<and> expectedInputCurrencyAmountRaw info = Some ''1000''
      \<and> inputCurrencyAmountRaw info = None
      \<and> expectedOutputCurrencyAmountRaw info = None
      \<and> minimumOutputCurrencyAmountRaw info = None"
    unfolding a2 v2 e by auto
  from p1 p2 show ?thesis by blast
qed

text \<open>The order record of a successful off-chain-order swap.\<close>

lemma useSwapCallback_order_fields:
  assumes "useSwapCallback env st = (Inr result, st')" and "trade env = Some t"
    and "result = UniswapXSwapResult response \<or> result = UniswapXv2SwapResult response"
  shows "\<exists>r a. orders st' = orders st @ [r]
       \<and> offerer r = Some a \<and> a \<noteq> [] \<and> address (account env) = Some a
       \<and> order_orderHash r = orderHash response
       \<and> expiry r = order_deadline response
       \<and> order_encodedOrder r = encodedOrder response
       \<and> order_chainId r = supportedConnectedChainId env
       \<and> order_offchainOrderType r =
           (if isUniswapXTrade (Some t) then offchainOrderType t else Some DUTCH_AUCTION)"
proof -
  from assms(1) obtain t' st1 where t': "trade env = Some t'"
    and conn: "truthy_string (address (account env))"
    and e: "execute_and_record env t' st1 = (Inr result, st')"
    and o: "orders st1 = orders st"
    by (rule useSwapCallback_returns)
  from t' assms(2) have tt: "t' = t" by simp
  from conn obtain a where a: "address (account env) = Some a" "a \<noteq> []"
    by (auto simp add: truthy_string_def split: option.splits)
  from assms(3) have "result_type result = UniswapX \<or> result_type result = UniswapXv2" by auto
  from execute_and_record_appends(2) [OF e [unfolded tt] this] assms(3) o a
  show ?thesis by (auto simp add: order_details_def)
qed

lemma sample_switched_run:
  "useSwapCallback (sample_env (Some (sample_trade UniswapXv2 EXACT_INPUT)) (Some 1)) empty_state
     = (Inr (UniswapXv2SwapResult
               \<lparr>orderHash = ''0xhash'', order_deadline = 1700000000, encodedOrder = ''0xorder''\<rparr>),
        snd (useSwapCallback (sample_env (Some (sample_trade UniswapXv2 EXACT_INPUT)) (Some 1)) empty_state))"
  by (simp add: useSwapCallback_def execute_and_record_def swapCallback_def isUniswapXTrade_def
        sample_env_def sample_trade_def truthy_string_def truthy_number_def Let_def
        deadline_toNumber_def toNumber_def)

text \<open>
  Claim C4. The claim asks that the order record of a successful off-chain-order swap hold
  the target chain id of the swap, also when the wallet was switched to that chain during
  validation. The record holds \<open>supportedConnectedChainId\<close> as the callback closed over it
  before the switch: whenever the wallet was not on the target chain, a successful
  off-chain-order swap has switched the wallet to the target chain once and records the
  order under the chain the wallet was on before, or under no chain, never under the target
  chain. With the wallet on chain 1, the target chain 130 and an accepted switch, the order
  is recorded under chain 1.
\<close>

theorem useSwapCallback_order_chain_after_switch:
  assumes "useSwapCallback env st = (Inr result, st')" and "trade env = Some t"
    and "result = UniswapXSwapResult response \<or> result = UniswapXv2SwapResult response"
    and "swapChainId env = Some c" and "supportedConnectedChainId env \<noteq> Some c"
  shows "switchAttempts st' = switchAttempts st @ [c]
       \<and> (\<exists>r. orders st' = orders st @ [r]
              \<and> order_chainId r = supportedConnectedChainId env
              \<and> order_chainId r \<noteq> swapChainId env)"
proof -
  have sw: "switchAttempts st' = switchAttempts st @ [c]"
  proof (cases rule: useSwapCallback_paths [of env st])
    case (switched t' c')
    with assms(4) have "c' = c" by simp
    with switched(9) assms(1)
    have "execute_and_record env t' (st\<lparr>switchAttempts := switchAttempts st @ [c]\<rparr>) = (Inr result, st')"
      by simp
    then show ?thesis
      using execute_and_record_switchAttempts
              [of env t' "st\<lparr>switchAttempts := switchAttempts st @ [c]\<rparr>"]
      by simp
  next
    case (same_chain t' c')
    with assms(4,5) show ?thesis by simp
  qed (use assms(1) in simp_all)
  from useSwapCallback_order_fields [OF assms(1,2,3)] assms(4,5)
  have "\<exists>r. orders st' = orders st @ [r]
              \<and> order_chainId r = supportedConnectedChainId env
              \<and> order_chainId r \<noteq> swapChainId env"
    by auto
  with sw show ?thesis by blast
qed

theorem useSwapCallback_order_chain_after_switch_witness:
  "swapChainId (sample_env (Some (sample_trade UniswapXv2 EXACT_INPUT)) (Some 1)) = Some 130
   \<and> switchAttempts
       (snd (useSwapCallback (sample_env (Some (sample_trade UniswapXv2 EXACT_INPUT)) (Some 1)) empty_state))
       = [130]
   \<and> (\<exists>r. orders
       (snd (useSwapCallback (sample_env (Some (sample_trade UniswapXv2 EXACT_INPUT)) (Some 1)) empty_state))
       = [r] \<and> order_chainId r = Some 1)"
proof -
  let ?env = "sample_env (Some (sample_trade UniswapXv2 EXACT_INPUT)) (Some 1)"
  have t: "trade ?env = Some (sample_trade UniswapXv2 EXACT_INPUT)"
    and c: "swapChainId ?env = Some 130"
    and s: "supportedConnectedChainId ?env = Some 1"
    by (simp_all add: sample_env_def)
  have n: "supportedConnectedChainId ?env \<noteq> Some 130"
    by (simp add: sample_env_def)
  have r: "UniswapXv2SwapResult
               \<lparr>orderHash = ''0xhash'', order_deadline = 1700000000, encodedOrder = ''0xorder''\<rparr>
           = UniswapXSwapResult
               \<lparr>orderHash = ''0xhash'', order_deadline = 1700000000, encodedOrder = ''0xorder''\<rparr>
         \<or> UniswapXv2SwapResult
               \<lparr>orderHash = ''0xhash'', order_deadline = 1700000000, encodedOrder = ''0xorder''\<rparr>
           = UniswapXv2SwapResult
               \<lparr>orderHash = ''0xhash'', order_deadline = 1700000000, encodedOrder = ''0xorder''\<rparr>"
    by simp
  from useSwapCallback_order_chain_after_switch [OF sample_switched_run t r c n]
  show ?thesis
    unfolding s c by (auto simp add: empty_state_def)
qed

end
